theory Spec2Isabelle
  imports Main "HOL-Library.AList"
begin

section \<open>JavaScript values\<close>

text \<open>
  Every value the routes and the verifier handle is JSON that came from a request body or
  from an answer of the Issuer Node, or \<open>undefined\<close> for a missing property. An object
  is an association list in insertion order; a property read takes the first entry.
  Numbers are integers, and \<open>NaN\<close>, here: the code only tests them for truthiness
  and, in one place, subtracts a number of seconds.  Strings are lists of 8-bit characters; text outside
  ASCII is written as its UTF-8 bytes.
\<close>

datatype jsval =
    JUndefined
  | JNull
  | JBool bool
  | JNum int
  | JNaN
  | JStr string
  | JArr "jsval list"
  | JObj "(string \<times> jsval) list"

text \<open>\<open>!!v\<close>: undefined, null, false, 0, NaN and the empty string are falsy.\<close>

fun truthy :: "jsval \<Rightarrow> bool" where
  "truthy JUndefined = False"
| "truthy JNull = False"
| "truthy (JBool b) = b"
| "truthy (JNum n) = (n \<noteq> 0)"
| "truthy JNaN = False"
| "truthy (JStr s) = (s \<noteq> [])"
| "truthy (JArr xs) = True"
| "truthy (JObj kvs) = True"

fun nullish :: "jsval \<Rightarrow> bool" where
  "nullish JUndefined = True"
| "nullish JNull = True"
| "nullish v = False"

text \<open>
  \<open>v.k\<close> for a receiver that is not null or undefined (there the read throws, which
  each function below writes out as a branch of its own).  None of the property names the
  code reads exists on a string, number, boolean or array, except \<open>length\<close>, which has
  its own function.
\<close>

fun js_get :: "jsval \<Rightarrow> string \<Rightarrow> jsval" where
  "js_get (JObj kvs) k = (case map_of kvs k of Some v \<Rightarrow> v | None \<Rightarrow> JUndefined)"
| "js_get v k = JUndefined"

text \<open>\<open>v?.k\<close>\<close>

definition js_opt_get :: "jsval \<Rightarrow> string \<Rightarrow> jsval" where
  "js_opt_get v k = (if nullish v then JUndefined else js_get v k)"

text \<open>\<open>a || b\<close>\<close>

definition js_or :: "jsval \<Rightarrow> jsval \<Rightarrow> jsval" where
  "js_or a b = (if truthy a then a else b)"

text \<open>\<open>v.length\<close> for a receiver that is not null or undefined.\<close>

fun js_length :: "jsval \<Rightarrow> jsval" where
  "js_length (JArr xs) = JNum (int (length xs))"
| "js_length (JStr s) = JNum (int (length s))"
| "js_length v = js_get v ''length''"

text \<open>
  \<open>a === b\<close>.  Primitives compare by value.  Two arrays or two objects are equal only
  when they are the same reference; the operands compared below always come from two
  documents parsed separately, so they never are.  \<open>NaN\<close> equals nothing.
\<close>

definition strict_eq :: "jsval \<Rightarrow> jsval \<Rightarrow> bool" where
  "strict_eq a b = (case a of JArr xs \<Rightarrow> False | JObj kvs \<Rightarrow> False | JNaN \<Rightarrow> False | _ \<Rightarrow> a = b)"

text \<open>\<open>Array.isArray(v)\<close>\<close>

fun isArray :: "jsval \<Rightarrow> bool" where
  "isArray (JArr xs) = True"
| "isArray v = False"

text \<open>\<open>arr.includes(s)\<close> for a string \<open>s\<close>.\<close>

fun includes_str :: "jsval \<Rightarrow> string \<Rightarrow> bool" where
  "includes_str (JArr xs) s = (JStr s \<in> set xs)"
| "includes_str v s = False"

text \<open>\<open>s.replace(pat, rep)\<close> with a non-empty string pattern: the first occurrence only.\<close>

fun replace_first :: "string \<Rightarrow> string \<Rightarrow> string \<Rightarrow> string" where
  "replace_first pat rep [] = []"
| "replace_first pat rep (c # cs) =
     (if take (length pat) (c # cs) = pat then rep @ drop (length pat) (c # cs)
      else c # replace_first pat rep cs)"

text \<open>\<open>s.includes(sub)\<close> on strings.\<close>

fun str_includes :: "string \<Rightarrow> string \<Rightarrow> bool" where
  "str_includes [] sub = (sub = [])"
| "str_includes (c # cs) sub = (take (length sub) (c # cs) = sub \<or> str_includes cs sub)"

subsection \<open>Thrown errors\<close>

text \<open>
  What a \<open>catch\<close> block reads of the error it caught: \<open>message\<close>, \<open>code\<close> and, for an
  HTTP answer with an error status, \<open>response.status\<close> and \<open>response.data\<close>.
\<close>

datatype js_error = JsError (message: string) (code: jsval) (response: "(jsval \<times> jsval) option")

definition TypeError :: "string \<Rightarrow> js_error" where
  "TypeError msg = JsError msg JUndefined None"

definition new_Error :: "string \<Rightarrow> js_error" where
  "new_Error msg = JsError msg JUndefined None"

text \<open>\<open>error.response?.status\<close> and \<open>error.response?.data\<close>\<close>

definition response_status :: "js_error \<Rightarrow> jsval" where
  "response_status e = (case response e of None \<Rightarrow> JUndefined | Some (st, d) \<Rightarrow> st)"

definition response_data :: "js_error \<Rightarrow> jsval" where
  "response_data e = (case response e of None \<Rightarrow> JUndefined | Some (st, d) \<Rightarrow> d)"

text \<open>The engine's message for a property read on null or undefined.\<close>

definition cannot_read :: "jsval \<Rightarrow> string \<Rightarrow> js_error" where
  "cannot_read v k = TypeError (''Cannot read properties of ''
     @ (if v = JNull then ''null'' else ''undefined'')
     @ '' (reading '' @ [CHR 0x27] @ k @ [CHR 0x27] @ '')'')"

definition not_a_function :: "string \<Rightarrow> js_error" where
  "not_a_function what = TypeError (what @ '' is not a function'')"

text \<open>The result of an awaited HTTP request: the thrown error, or \<open>response.data\<close>.\<close>

type_synonym http = "js_error + jsval"

subsection \<open>Conversions of the runtime\<close>

text \<open>
  \<open>ToNumber\<close> and \<open>ToString\<close> of the language.  On strings, arrays and objects
  (for \<open>ToString\<close>: numbers, arrays and objects) the conversion is a primitive of the
  runtime, taken as the parameter \<open>conv\<close>; it may throw (an object whose \<open>valueOf\<close>
  and \<open>toString\<close> are not callable).
\<close>

definition ToNumber :: "(jsval \<Rightarrow> js_error + jsval) \<Rightarrow> jsval \<Rightarrow> js_error + jsval" where
  "ToNumber conv v =
     (case v of
        JUndefined \<Rightarrow> Inr JNaN
      | JNull \<Rightarrow> Inr (JNum 0)
      | JBool b \<Rightarrow> Inr (JNum (if b then 1 else 0))
      | JNum n \<Rightarrow> Inr (JNum n)
      | JNaN \<Rightarrow> Inr JNaN
      | _ \<Rightarrow> conv v)"

definition ToString :: "(jsval \<Rightarrow> js_error + string) \<Rightarrow> jsval \<Rightarrow> js_error + string" where
  "ToString conv v =
     (case v of
        JUndefined \<Rightarrow> Inr ''undefined''
      | JNull \<Rightarrow> Inr ''null''
      | JBool b \<Rightarrow> Inr (if b then ''true'' else ''false'')
      | JNaN \<Rightarrow> Inr ''NaN''
      | JStr s \<Rightarrow> Inr s
      | _ \<Rightarrow> conv v)"

section \<open>The verifier (zkp-verifier)\<close>

datatype validation = Valid | Invalid string

definition requiredFields :: "string list" where
  "requiredFields = [''id'', ''type'', ''issuer'', ''issuanceDate'', ''credentialSubject'']"

text \<open>The loop over the required fields: the first one whose value is falsy.\<close>

fun first_missing :: "jsval \<Rightarrow> string list \<Rightarrow> string option" where
  "first_missing credential [] = None"
| "first_missing credential (field # fields) =
     (if \<not> truthy (js_get credential field) then Some field
      else first_missing credential fields)"

definition validateCredentialStructure :: "jsval \<Rightarrow> validation" where
  "validateCredentialStructure credential =
     (if \<not> truthy credential then Invalid (''Credencial vac'' @ [CHR 0xC3, CHR 0xAD] @ ''a'')
      else case first_missing credential requiredFields of
        Some field \<Rightarrow> Invalid (''Campo requerido faltante: '' @ field)
      | None \<Rightarrow>
          if \<not> isArray (js_get credential ''type'')
             \<or> \<not> includes_str (js_get credential ''type'') ''VerifiableCredential''
          then Invalid (''Tipo de credencial inv'' @ [CHR 0xC3, CHR 0xA1]
                 @ ''lido (debe incluir VerifiableCredential)'')
          else if \<not> truthy (js_get (js_get credential ''credentialSubject'') ''id'')
          then Invalid ''credentialSubject.id es requerido''
          else Valid)"

text \<open>
  \<open>compareCredentialData\<close> has a try/catch of its own: a read on a null or undefined
  issuer credential, or on a null or undefined \<open>credentialSubject\<close> of either side, is
  caught and reported as a mismatch.
\<close>

definition compareCredentialData :: "jsval \<Rightarrow> jsval \<Rightarrow> validation" where
  "compareCredentialData localCred issuerCred =
     (if nullish localCred then
        Invalid (''Error comparando datos: '' @ message (cannot_read localCred ''id''))
      else if nullish issuerCred then
        Invalid (''Error comparando datos: '' @ message (cannot_read issuerCred ''id''))
      else if \<not> strict_eq (js_get localCred ''id'') (js_get issuerCred ''id'') then
        Invalid ''ID de credencial no coincide''
      else if \<not> strict_eq (js_get localCred ''issuer'') (js_get issuerCred ''issuer'') then
        Invalid ''Issuer no coincide''
      else if nullish (js_get localCred ''credentialSubject'') then
        Invalid (''Error comparando datos: ''
          @ message (cannot_read (js_get localCred ''credentialSubject'') ''id''))
      else if nullish (js_get issuerCred ''credentialSubject'') then
        Invalid (''Error comparando datos: ''
          @ message (cannot_read (js_get issuerCred ''credentialSubject'') ''id''))
      else if \<not> strict_eq (js_get (js_get localCred ''credentialSubject'') ''id'')
                           (js_get (js_get issuerCred ''credentialSubject'') ''id'') then
        Invalid ''Subject ID no coincide''
      else Valid)"

text \<open>Sequencing of steps that may throw: the first error ends the block.\<close>

definition bind :: "js_error + 'a \<Rightarrow> ('a \<Rightarrow> js_error + 'b) \<Rightarrow> js_error + 'b" where
  "bind m f = (case m of Inl e \<Rightarrow> Inl e | Inr x \<Rightarrow> f x)"

text \<open>\<open>v ? v.substring(0, n) + '...' : null\<close>; a truthy value that is no string has no
  \<open>substring\<close> method.\<close>

definition truncated :: "nat \<Rightarrow> string \<Rightarrow> jsval \<Rightarrow> js_error + jsval" where
  "truncated n what v =
     (if \<not> truthy v then Inr JNull
      else case v of
        JStr s \<Rightarrow> Inr (JStr (take n s @ ''...''))
      | _ \<Rightarrow> Inl (not_a_function (what @ ''.substring'')))"

text \<open>
  \<open>state?.k?.substring(0, 20) + '...' || null\<close>.  The sum binds tighter than \<open>||\<close>:
  when the chain yields undefined the string \<open>undefined...\<close> results, and the
  alternative \<open>null\<close> is never taken.
\<close>

definition chained_prefix :: "jsval \<Rightarrow> string \<Rightarrow> js_error + jsval" where
  "chained_prefix st k =
     (if nullish st then Inr (js_or (JStr ''undefined...'') JNull)
      else if nullish (js_get st k) then Inr (js_or (JStr ''undefined...'') JNull)
      else case js_get st k of
        JStr s \<Rightarrow> Inr (js_or (JStr (take 20 s @ ''...'')) JNull)
      | _ \<Rightarrow> Inl (not_a_function (''proof.issuerData.state.'' @ k @ ''.substring'')))"

text \<open>\<open>mtp?.siblings?.length || 0\<close>\<close>

definition siblingsCount :: "jsval \<Rightarrow> jsval" where
  "siblingsCount mtp =
     js_or (if nullish mtp then JUndefined
            else if nullish (js_get mtp ''siblings'') then JUndefined
            else js_length (js_get mtp ''siblings''))
           (JNum 0)"

definition summarise_issuerData :: "jsval \<Rightarrow> js_error + jsval" where
  "summarise_issuerData issuerData =
     bind (chained_prefix (js_get issuerData ''state'') ''value'') (\<lambda>val.
     bind (chained_prefix (js_get issuerData ''state'') ''claimsTreeRoot'') (\<lambda>root.
     bind (truncated 40 ''proof.issuerData.authCoreClaim'' (js_get issuerData ''authCoreClaim''))
       (\<lambda>authCoreClaim.
     Inr (JObj [
       (''id'', js_get issuerData ''id''),
       (''state'', JObj [(''value'', val), (''claimsTreeRoot'', root)]),
       (''authCoreClaim'', authCoreClaim),
       (''mtp'', JObj [
          (''existence'', js_opt_get (js_get issuerData ''mtp'') ''existence''),
          (''siblingsCount'', siblingsCount (js_get issuerData ''mtp''))])]))))"

text \<open>The body of the \<open>forEach\<close> callback: the summary of one proof object.\<close>

definition summarise_proof :: "jsval \<Rightarrow> js_error + jsval" where
  "summarise_proof proof =
     (if nullish proof then Inl (cannot_read proof ''type'')
      else
        bind (truncated 20 ''proof.signature'' (js_get proof ''signature'')) (\<lambda>signature.
        bind (truncated 40 ''proof.coreClaim'' (js_get proof ''coreClaim'')) (\<lambda>coreClaim.
        bind (if truthy (js_get proof ''issuerData'')
              then summarise_issuerData (js_get proof ''issuerData'')
              else Inr JNull) (\<lambda>issuerData.
        Inr (JObj [
          (''type'', js_get proof ''type''),
          (''signature'', signature),
          (''coreClaim'', coreClaim),
          (''issuerData'', issuerData)])))))"

fun summarise_all :: "jsval list \<Rightarrow> js_error + jsval list" where
  "summarise_all [] = Inr []"
| "summarise_all (p # ps) =
     bind (summarise_proof p) (\<lambda>d. bind (summarise_all ps) (\<lambda>ds. Inr (d # ds)))"

text \<open>\<open>Array.isArray(v) ? v : [v]\<close>\<close>

definition as_list :: "jsval \<Rightarrow> jsval list" where
  "as_list v = (case v of JArr xs \<Rightarrow> xs | _ \<Rightarrow> [v])"

definition extractProofInfo :: "jsval \<Rightarrow> js_error + jsval" where
  "extractProofInfo credentialData =
     (if nullish credentialData then Inl (cannot_read credentialData ''proofTypes'')
      else
        let types = js_or (js_get credentialData ''proofTypes'') (JArr []) in
        if truthy (js_get credentialData ''vc'')
           \<and> truthy (js_get (js_get credentialData ''vc'') ''proof'')
        then
          let proofs = as_list (js_get (js_get credentialData ''vc'') ''proof'')
          in bind (summarise_all proofs) (\<lambda>ds.
               Inr (JObj [(''types'', types), (''proofs'', JArr ds)]))
        else Inr (JObj [(''types'', types), (''proofs'', JArr [])]))"

subsection \<open>Requests to the Issuer Node\<close>

text \<open>
  Every request the code sends, with what it sends: the trace of a run is the list of
  its requests in order.
\<close>

datatype call =
    GetIdentities
  | PostIdentities jsval
  | PostCredentials jsval jsval
  | PostPublish jsval
  | GetCredential jsval jsval

subsection \<open>verifyCredentialWithIssuer\<close>

definition connection_failure :: "jsval \<Rightarrow> jsval \<Rightarrow> js_error \<Rightarrow> jsval" where
  "connection_failure issuerNodeUrl issuerDID issuerError =
     JObj [
       (''verified'', JBool False),
       (''error'', JStr (''No se pudo verificar con Issuer Node: '' @ message issuerError)),
       (''stage'', JStr ''issuer_node_connection''),
       (''details'', JObj [
          (''issuerNodeUrl'', issuerNodeUrl),
          (''issuerDID'', issuerDID),
          (''errorDetails'', js_or (response_data issuerError) (JStr (message issuerError)))])]"

text \<open>
  The statements of the inner \<open>try\<close> block after the answer has arrived.  \<open>Inl\<close> is an
  error thrown there, which the inner \<open>catch\<close> receives like a failed request.
\<close>

definition check_issuer_record ::
  "string \<Rightarrow> jsval \<Rightarrow> jsval \<Rightarrow> string \<Rightarrow> jsval \<Rightarrow> js_error + jsval" where
  "check_issuer_record stamp credential issuerDID credentialId data =
     (if nullish data then Inl (cannot_read data ''revoked'')
      else if truthy (js_get data ''revoked'') then
        Inr (JObj [
          (''verified'', JBool False),
          (''error'', JStr ''Credencial revocada''),
          (''stage'', JStr ''revocation_check''),
          (''details'', data)])
      else case compareCredentialData credential (js_get data ''vc'') of
        Invalid e \<Rightarrow>
          Inr (JObj [
            (''verified'', JBool False),
            (''error'', JStr e),
            (''stage'', JStr ''data_comparison'')])
      | Valid \<Rightarrow>
          bind (extractProofInfo data) (\<lambda>proofInfo.
            Inr (JObj [
              (''verified'', JBool True),
              (''message'', JStr ''Credencial verificada exitosamente''),
              (''details'', JObj [
                 (''credentialId'', JStr credentialId),
                 (''issuer'', issuerDID),
                 (''subject'', js_get (js_get credential ''credentialSubject'') ''id''),
                 (''issuanceDate'', js_get credential ''issuanceDate''),
                 (''notRevoked'', JBool (\<not> truthy (js_get data ''revoked''))),
                 (''proofTypes'', js_or (js_get data ''proofTypes'') (JArr [])),
                 (''zkpProof'', proofInfo)]),
              (''rawData'', JObj [
                 (''credential'', data),
                 (''verification'', JObj [
                    (''timestamp'', JStr stamp),
                    (''method'', JStr ''issuer-node-verification''),
                    (''structureValid'', JBool True),
                    (''revocationChecked'', JBool True),
                    (''dataComparison'', JBool True)])])])))"

text \<open>
  \<open>axios_get issuerDID credentialId\<close> is the answer of
  \<open>GET {issuerNodeUrl}/v2/identities/{issuerDID}/credentials/{credentialId}\<close>; \<open>stamp\<close>
  is the clock's \<open>new Date().toISOString()\<close>, \<open>conv\<close> the runtime's conversion to
  strings.  The function returns its verdict and the requests it made.  The first
  statement logs \<open>credential.id\<close>, outside the inner \<open>try\<close>: on a null or undefined
  credential it throws to the outer \<open>catch\<close>.  Inside the inner \<open>try\<close>, before any
  request, two things can throw: a truthy \<open>id\<close> that is no string has no \<open>replace\<close>
  method, and the URL is a template that converts its parts to strings.
\<close>

definition verifyCredentialWithIssuer ::
  "(jsval \<Rightarrow> js_error + string) \<Rightarrow> (jsval \<Rightarrow> string \<Rightarrow> http) \<Rightarrow> string
     \<Rightarrow> jsval \<Rightarrow> jsval \<Rightarrow> jsval \<Rightarrow> jsval \<times> call list" where
  "verifyCredentialWithIssuer conv axios_get stamp credential issuerDID issuerNodeUrl =
     (if nullish credential then
        (JObj [
           (''verified'', JBool False),
           (''error'', JStr (message (cannot_read credential ''id''))),
           (''stage'', JStr ''general_error'')], [])
      else case validateCredentialStructure credential of
        Invalid e \<Rightarrow>
          (JObj [
             (''verified'', JBool False),
             (''error'', JStr e),
             (''stage'', JStr ''structure_validation'')], [])
      | Valid \<Rightarrow>
          (case js_get credential ''id'' of
             JStr s \<Rightarrow>
               (let credentialId = replace_first ''urn:uuid:'' [] s in
                case bind (ToString conv issuerNodeUrl) (\<lambda>url. ToString conv issuerDID) of
                  Inl issuerError \<Rightarrow>
                    (connection_failure issuerNodeUrl issuerDID issuerError, [])
                | Inr did_text \<Rightarrow>
                    (case bind (axios_get issuerDID credentialId)
                            (check_issuer_record stamp credential issuerDID credentialId) of
                       Inl issuerError \<Rightarrow> connection_failure issuerNodeUrl issuerDID issuerError
                     | Inr verdict \<Rightarrow> verdict,
                     [GetCredential issuerDID (JStr credentialId)]))
           | _ \<Rightarrow>
               (connection_failure issuerNodeUrl issuerDID
                  (not_a_function ''credential.id.replace''), [])))"

section \<open>Proof queries (zkp-proofs)\<close>

text \<open>
  \<open>Math.floor(Date.now() / 1000) - (minAge * 24 * 60 * 60)\<close>, with \<open>now\<close> the clock in
  seconds.
\<close>

definition minTimestamp ::
  "(jsval \<Rightarrow> js_error + jsval) \<Rightarrow> int \<Rightarrow> jsval \<Rightarrow> js_error + jsval" where
  "minTimestamp to_number now minAge =
     bind (ToNumber to_number minAge) (\<lambda>n.
       case n of
         JNum k \<Rightarrow> Inr (JNum (now - k * 24 * 60 * 60))
       | _ \<Rightarrow> Inr JNaN)"

text \<open>
  \<open>if (cond) { query[k] = v; }\<close>: an assignment replaces the value of a key the object
  has and appends the key otherwise.
\<close>

definition assign_if ::
  "bool \<Rightarrow> string \<Rightarrow> jsval \<Rightarrow> (string \<times> jsval) list \<Rightarrow> (string \<times> jsval) list" where
  "assign_if cond k v query = (if cond then AList.update k v query else query)"

text \<open>
  \<open>createCombinedQuery\<close>: the query starts empty and each \<open>if\<close> assigns one entry.
  A null or undefined \<open>conditions\<close> throws at the first read; the product with
  \<open>minAge\<close> throws when its conversion to a number does.
\<close>

definition createCombinedQuery ::
  "(jsval \<Rightarrow> js_error + jsval) \<Rightarrow> int \<Rightarrow> jsval \<Rightarrow> js_error + jsval" where
  "createCombinedQuery to_number now conditions =
     (if nullish conditions then Inl (cannot_read conditions ''isVerified'')
      else
        let query = [];
            query = assign_if (js_get conditions ''isVerified'' \<noteq> JUndefined)
                      ''isVerified'' (JObj [(''$eq'', js_get conditions ''isVerified'')]) query;
            query = assign_if (truthy (js_get conditions ''accountState''))
                      ''accountState'' (JObj [(''$eq'', js_get conditions ''accountState'')]) query;
            query = assign_if (truthy (js_get conditions ''authMethod''))
                      ''authMethod'' (JObj [(''$eq'', js_get conditions ''authMethod'')]) query
        in
        bind (if truthy (js_get conditions ''minAge'')
              then bind (minTimestamp to_number now (js_get conditions ''minAge''))
                     (\<lambda>minTimestamp.
                        Inr (assign_if True ''registrationDate''
                               (JObj [(''$lt'', minTimestamp)]) query))
              else Inr query)
          (\<lambda>query.
             let query = assign_if (truthy (js_get conditions ''hasEmail''))
                           ''email'' (JObj [(''$exists'', JBool True)]) query;
                 query = assign_if (truthy (js_get conditions ''hasWallet''))
                           ''walletAddress'' (JObj [(''$exists'', JBool True)]) query
             in Inr (JObj query)))"

section \<open>The routes\<close>

subsection \<open>extractZkpDataFromCredential\<close>

text \<open>
  The whole body stands in a \<open>try\<close>.  The only statement that can throw is the read of
  \<open>proof.type\<close> on a first element that is null; the \<open>catch\<close> answers with the state
  \<open>error\<close>.
\<close>

definition extractZkpDataFromCredential :: "jsval \<Rightarrow> jsval \<Rightarrow> jsval" where
  "extractZkpDataFromCredential credential did =
     (if \<not> truthy credential \<or> \<not> truthy (js_get credential ''proof'')
         \<or> \<not> isArray (js_get credential ''proof'')
         \<or> js_length (js_get credential ''proof'') = JNum 0
      then JObj [(''identifier'', did), (''state'', JStr ''no-proof''), (''proofType'', JNull)]
      else
        let proof = (case js_get credential ''proof'' of JArr (p # ps) \<Rightarrow> p | _ \<Rightarrow> JUndefined)
        in
        if nullish proof then
          JObj [(''identifier'', did), (''state'', JStr ''error''),
                (''error'', JStr (message (cannot_read proof ''type'')))]
        else
          let issuerData = js_get proof ''issuerData'' in
          JObj [
            (''identifier'', did),
            (''state'', JStr ''verified''),
            (''proofType'', js_or (js_get proof ''type'') (JStr ''BJJSignature2021'')),
            (''coreClaim'', js_or (js_get proof ''coreClaim'') JNull),
            (''signature'', js_or (js_get proof ''signature'') JNull),
            (''issuerData'',
               if truthy issuerData then
                 JObj [
                   (''id'', js_get issuerData ''id''),
                   (''state'',
                      if truthy (js_get issuerData ''state'') then
                        JObj [
                          (''value'', js_get (js_get issuerData ''state'') ''value''),
                          (''claimsTreeRoot'',
                             js_get (js_get issuerData ''state'') ''claimsTreeRoot'')]
                      else JNull),
                   (''authCoreClaim'', js_or (js_get issuerData ''authCoreClaim'') JNull),
                   (''mtp'',
                      if truthy (js_get issuerData ''mtp'') then
                        JObj [
                          (''existence'', js_get (js_get issuerData ''mtp'') ''existence''),
                          (''siblings'',
                             js_or (js_get (js_get issuerData ''mtp'') ''siblings'') (JArr []))]
                      else JNull),
                   (''credentialStatus'', js_or (js_get issuerData ''credentialStatus'') JNull)]
               else JNull)])"

subsection \<open>Validators (validador, datasure)\<close>

text \<open>\<open>s.toLowerCase()\<close>, on the ASCII letters.\<close>

definition lower_char :: "char \<Rightarrow> char" where
  "lower_char c =
     (if (65::nat) \<le> of_char c \<and> of_char c \<le> (90::nat)
      then char_of (of_char c + (32::nat)) else c)"

definition toLowerCase :: "string \<Rightarrow> string" where
  "toLowerCase s = map lower_char s"

text \<open>
  \<open>validateEmail\<close> tests the pattern \<^verbatim>\<open>^[^\s@]+@[^\s@]+\.[^\s@]+$\<close>: one \<open>@\<close>, no white
  space, something before the \<open>@\<close>, and after it a dot that is neither the first nor the
  last character.  White space is the ASCII white space.
\<close>

definition is_space :: "char \<Rightarrow> bool" where
  "is_space c = (c \<in> set [CHR '' '', CHR 0x09, CHR 0x0A, CHR 0x0B, CHR 0x0C, CHR 0x0D])"

definition plain_char :: "char \<Rightarrow> bool" where
  "plain_char c = (\<not> is_space c \<and> c \<noteq> CHR ''@'')"

definition validateEmail :: "string \<Rightarrow> bool" where
  "validateEmail email =
     (let local_part = takeWhile (\<lambda>c. c \<noteq> CHR ''@'') email;
          rest = dropWhile (\<lambda>c. c \<noteq> CHR ''@'') email
      in local_part \<noteq> [] \<and> rest \<noteq> [] \<and> list_all plain_char local_part
         \<and> list_all plain_char (tl rest) \<and> CHR ''.'' \<in> set (butlast (tl (tl rest))))"

text \<open>\<open>validateUserData\<close>: the list of complaints; the data are valid when it is empty.\<close>

definition validateUserData :: "jsval \<Rightarrow> string list" where
  "validateUserData userData =
     (if \<not> truthy (js_get userData ''fullName'') then [''fullName es requerido''] else [])
     @ (if \<not> truthy (js_get userData ''authMethod'') then [''authMethod es requerido''] else [])
     @ (if truthy (js_get userData ''authMethod'')
           \<and> js_get userData ''authMethod'' \<notin> set [JStr ''email'', JStr ''wallet'', JStr ''hybrid'']
        then [''authMethod debe ser: email, wallet o hybrid''] else [])"

subsection \<open>The environment and the state of the process\<close>

text \<open>
  The Issuer Node is a collaborator: each request site has its answer as a function of
  what is sent.  \<open>axios_get_credential\<close> answers the re-fetch after publishing,
  \<open>axios_get_credential_verify\<close> the look-up of the verifier (the same end point, at a
  later time).  \<open>hashData\<close> is SHA-256 over \<open>JSON.stringify\<close>, a black box.  The clock
  is read once per request.
\<close>

record env =
  ISSUER_NODE_URL :: "string option"
  axios_get_identities :: http
  axios_post_identities :: "jsval \<Rightarrow> http"
  axios_post_credentials :: "jsval \<Rightarrow> jsval \<Rightarrow> http"
  axios_post_publish :: "jsval \<Rightarrow> http"
  axios_get_credential :: "jsval \<Rightarrow> jsval \<Rightarrow> http"
  axios_get_credential_verify :: "jsval \<Rightarrow> string \<Rightarrow> http"
  now_seconds :: int
  now_iso :: string
  hashData :: "jsval \<Rightarrow> string"
  to_number :: "jsval \<Rightarrow> js_error + jsval"
  to_string :: "jsval \<Rightarrow> js_error + string"

definition url_value :: "env \<Rightarrow> jsval" where
  "url_value env = (case ISSUER_NODE_URL env of None \<Rightarrow> JUndefined | Some u \<Rightarrow> JStr u)"

definition url_text :: "env \<Rightarrow> string" where
  "url_text env = (case ISSUER_NODE_URL env of None \<Rightarrow> ''undefined'' | Some u \<Rightarrow> u)"

text \<open>The module's two variables: the cached DID of the issuer and the map of users.\<close>

record state =
  ISSUER_DID :: jsval
  usersStore :: "string \<rightharpoonup> jsval"

definition saveUser :: "env \<Rightarrow> state \<Rightarrow> string \<Rightarrow> (string \<times> jsval) list \<Rightarrow> state" where
  "saveUser env st email userData =
     st\<lparr>usersStore := (usersStore st)(toLowerCase email \<mapsto>
            JObj (AList.update ''savedAt'' (JStr (now_iso env)) userData))\<rparr>"

definition getUser :: "state \<Rightarrow> string \<Rightarrow> jsval" where
  "getUser st email =
     (case usersStore st (toLowerCase email) of None \<Rightarrow> JUndefined | Some user \<Rightarrow> user)"

definition userExists :: "state \<Rightarrow> string \<Rightarrow> bool" where
  "userExists st email = (usersStore st (toLowerCase email) \<noteq> None)"

subsection \<open>getIssuerDID\<close>

text \<open>\<open>v[0]\<close> for a receiver that is not null or undefined.\<close>

fun js_index0 :: "jsval \<Rightarrow> jsval" where
  "js_index0 (JArr (x # xs)) = x"
| "js_index0 (JStr (c # cs)) = JStr [c]"
| "js_index0 (JObj kvs) = js_get (JObj kvs) ''0''"
| "js_index0 v = JUndefined"

text \<open>\<open>v > 0\<close>\<close>

definition js_gt0 :: "env \<Rightarrow> jsval \<Rightarrow> js_error + bool" where
  "js_gt0 env v =
     bind (ToNumber (to_number env) v) (\<lambda>n. case n of JNum k \<Rightarrow> Inr (0 < k) | _ \<Rightarrow> Inr False)"

text \<open>
  The cached value is returned when truthy.  Otherwise the identities are listed; every
  error, of the request or of the reads on its answer, is caught and \<open>null\<close> returned.
\<close>

definition getIssuerDID :: "env \<Rightarrow> state \<Rightarrow> jsval \<times> state \<times> call list" where
  "getIssuerDID env st =
     (if truthy (ISSUER_DID st) then (ISSUER_DID st, st, [])
      else case axios_get_identities env of
        Inl error \<Rightarrow> (JNull, st, [GetIdentities])
      | Inr data \<Rightarrow>
          (case (if truthy data then js_gt0 env (js_length data) else Inr False) of
             Inl error \<Rightarrow> (JNull, st, [GetIdentities])
           | Inr False \<Rightarrow> (JNull, st, [GetIdentities])
           | Inr True \<Rightarrow>
               if nullish (js_index0 data) then (JNull, st, [GetIdentities])
               else (js_get (js_index0 data) ''identifier'',
                     st\<lparr>ISSUER_DID := js_get (js_index0 data) ''identifier''\<rparr>,
                     [GetIdentities])))"

subsection \<open>createDIDInIssuer\<close>

definition identityRequest :: jsval where
  "identityRequest =
     JObj [(''didMetadata'', JObj [
       (''method'', JStr ''polygonid''),
       (''blockchain'', JStr ''polygon''),
       (''network'', JStr ''amoy''),
       (''type'', JStr ''BJJ'')])]"

definition did_errorDetail :: "env \<Rightarrow> js_error \<Rightarrow> string" where
  "did_errorDetail env error =
     (if strict_eq (code error) (JStr ''ECONNABORTED'') then
        (''Tiempo de espera agotado. El Issuer Node est'' @ [CHR 0xC3, CHR 0xA1] @ '' tardando demasiado en responder.'')
      else if strict_eq (code error) (JStr ''ECONNREFUSED'') then
        (''El Issuer Node no est'' @ [CHR 0xC3, CHR 0xA1] @ '' en ejecuci'' @ [CHR 0xC3, CHR 0xB3] @ ''n o no es accesible en '') @ url_text env
      else if strict_eq (response_status error) (JNum 401) then
        (''Credenciales de autenticaci'' @ [CHR 0xC3, CHR 0xB3] @ ''n inv'' @ [CHR 0xC3, CHR 0xA1] @ ''lidas para el Issuer Node.'')
      else if strict_eq (response_status error) (JNum 500) then
        (''El Issuer Node encontr'' @ [CHR 0xC3, CHR 0xB3] @ '' un error interno al procesar la solicitud.'')
      else message error)"

text \<open>
  The request and the log line that reads \<open>response.data.identifier\<close> stand in one
  \<open>try\<close>; the \<open>catch\<close> throws a new error whose message carries the classified cause.
\<close>

definition createDIDInIssuer :: "env \<Rightarrow> jsval \<Rightarrow> (js_error + jsval) \<times> call list" where
  "createDIDInIssuer env userData =
     (case bind (axios_post_identities env identityRequest)
             (\<lambda>data. if nullish data then Inl (cannot_read data ''identifier'') else Inr data) of
        Inl error \<Rightarrow>
          Inl (new_Error (
            ''No se pudo crear el DID (Identidad Descentralizada). '' @ did_errorDetail env error
            @ (''. Sin un DID v'' @ [CHR 0xC3, CHR 0xA1] @ ''lido del Issuer Node no es posible crear credenciales ZKP con firma criptogr'' @ [CHR 0xC3, CHR 0xA1] @ ''fica real. Contacta al administrador del sistema.'')))
      | Inr data \<Rightarrow> Inr data,
      [PostIdentities identityRequest])"

subsection \<open>createCredentialInIssuer\<close>

text \<open>
  The outer \<open>catch\<close>: it classifies the error and throws a new one.  In the branch for
  status 400 the answer's \<open>message\<close> is joined to a string, a conversion that can throw
  in its turn.
\<close>

definition credential_failure :: "env \<Rightarrow> js_error \<Rightarrow> js_error" where
  "credential_failure env error =
     (let errorMessage = ''No se pudo crear la credencial ZKP. '' in
      if strict_eq (code error) (JStr ''ECONNABORTED'') then
        new_Error (errorMessage @ ''Tiempo de espera agotado (timeout). ''
          @ (''El Issuer Node est'' @ [CHR 0xC3, CHR 0xA1] @ '' tardando m'' @ [CHR 0xC3, CHR 0xA1] @ ''s de lo esperado en responder. '')
          @ (''El servidor puede estar sobrecargado o procesando muchas solicitudes. Int'' @ [CHR 0xC3, CHR 0xA9] @ ''ntalo nuevamente en unos momentos. Si el problema persiste, contacta al administrador.''))
      else if strict_eq (code error) (JStr ''ECONNREFUSED'') \<or> str_includes (message error) ''connect'' then
        new_Error (errorMessage @ (''El Issuer Node no est'' @ [CHR 0xC3, CHR 0xA1] @ '' disponible o no responde.'')
          @ ('' El servidor de emisi'' @ [CHR 0xC3, CHR 0xB3] @ ''n de credenciales est'' @ [CHR 0xC3, CHR 0xA1] @ '' fuera de l'' @ [CHR 0xC3, CHR 0xAD] @ ''nea. Por favor, contacta al administrador del sistema.''))
      else if strict_eq (response_status error) (JNum 401)
              \<or> strict_eq (response_status error) (JNum 403) then
        new_Error (errorMessage @ (''Error de autenticaci'' @ [CHR 0xC3, CHR 0xB3] @ ''n con el Issuer Node.'')
          @ ('' Las credenciales de acceso al servidor de emisi'' @ [CHR 0xC3, CHR 0xB3] @ ''n son inv'' @ [CHR 0xC3, CHR 0xA1] @ ''lidas. Contacta al administrador.''))
      else if strict_eq (response_status error) (JNum 400) then
        (case ToString (to_string env)
                (js_or (js_opt_get (response_data error) ''message'')
                       (JStr ''Verifica que todos los campos sean correctos.'')) of
           Inl thrown \<Rightarrow> thrown
         | Inr detail \<Rightarrow>
             new_Error (errorMessage @ (''Los datos proporcionados son inv'' @ [CHR 0xC3, CHR 0xA1] @ ''lidos.'') @ '' '' @ detail))
      else if strict_eq (response_status error) (JNum 500) then
        new_Error (errorMessage @ ''Error interno del Issuer Node.''
          @ ('' El servidor de emisi'' @ [CHR 0xC3, CHR 0xB3] @ ''n encontr'' @ [CHR 0xC3, CHR 0xB3] @ '' un error al procesar la solicitud.''))
      else
        new_Error (errorMessage @ message error
          @ ('' No se puede generar una credencial con firma criptogr'' @ [CHR 0xC3, CHR 0xA1] @ ''fica real sin el Issuer Node.'')))"

definition credentialSubject_of :: "env \<Rightarrow> jsval \<Rightarrow> jsval \<Rightarrow> jsval" where
  "credentialSubject_of env did userData =
     JObj ([
       (''id'', did),
       (''fullName'', js_or (js_get userData ''fullName'') (JStr ''Unknown User'')),
       (''authMethod'', js_or (js_get userData ''authMethod'') (JStr ''email'')),
       (''accountState'', js_or (js_get userData ''accountState'') (JStr ''active'')),
       (''registrationDate'', JNum (now_seconds env)),
       (''isVerified'', js_or (js_get userData ''isVerified'') (JBool False))]
       @ (if truthy (js_get userData ''email'')
          then [(''email'', js_get userData ''email'')] else [])
       @ (if truthy (js_get userData ''walletAddress'')
          then [(''walletAddress'', js_get userData ''walletAddress'')] else []))"

definition credentialRequest_of :: "env \<Rightarrow> jsval \<Rightarrow> jsval \<Rightarrow> jsval" where
  "credentialRequest_of env did userData =
     JObj [
       (''credentialSchema'', JStr ''ipfs://QmXAHpXSPcj2J7wreCkKkvvXgT67tbQDvFxmTHudXQYBEp''),
       (''type'', JStr ''ZKPAuthCredential''),
       (''credentialSubject'', credentialSubject_of env did userData),
       (''expiration'', JNum (now_seconds env + 365 * 24 * 60 * 60))]"

text \<open>
  The re-fetch after publishing, with its own \<open>try\<close>: when the credential's id cannot
  be put into the URL, the request fails, or the log line that reads
  \<open>credentialResponse.data.proofTypes\<close> throws, the answer of the creation request is
  returned instead (\<open>created\<close>).  The result is the credential and the request sent.
\<close>

definition fetch_complete :: "env \<Rightarrow> jsval \<Rightarrow> jsval \<Rightarrow> jsval \<Rightarrow> jsval \<times> call list" where
  "fetch_complete env issuerDID credentialId created =
     (case ToString (to_string env) credentialId of
        Inl fetchError \<Rightarrow> (created, [])
      | Inr id_text \<Rightarrow>
          (case axios_get_credential env issuerDID credentialId of
             Inl fetchError \<Rightarrow> created
           | Inr fetched \<Rightarrow>
               if nullish fetched then created
               else js_or (js_get fetched ''vc'') fetched,
           [GetCredential issuerDID credentialId]))"

text \<open>
  The steps in order: the issuer's DID, the creation request (whose URL converts that DID
  to a string), the log line that reads \<open>response.data.id\<close>, the publication in a
  \<open>try\<close> of its own whose \<open>catch\<close> only logs, then the re-fetch.  Both outcomes of
  the publication continue alike (the wait of three seconds after a publication that
  succeeded is not modelled).
\<close>

definition createCredentialInIssuer ::
  "env \<Rightarrow> state \<Rightarrow> jsval \<Rightarrow> jsval \<Rightarrow> (js_error + jsval) \<times> state \<times> call list" where
  "createCredentialInIssuer env st did userData =
     (case getIssuerDID env st of (issuerDID, st1, calls1) \<Rightarrow>
        if \<not> truthy issuerDID then
          (Inl (credential_failure env (new_Error ''No se pudo obtener el DID del Issuer'')),
           st1, calls1)
        else if nullish userData then
          (Inl (credential_failure env (cannot_read userData ''fullName'')), st1, calls1)
        else
          let credentialRequest = credentialRequest_of env did userData;
              calls2 = calls1 @ [PostCredentials issuerDID credentialRequest]
          in
          (case ToString (to_string env) issuerDID of
             Inl error \<Rightarrow> (Inl (credential_failure env error), st1, calls1)
           | Inr did_text \<Rightarrow>
               (case axios_post_credentials env issuerDID credentialRequest of
                  Inl error \<Rightarrow> (Inl (credential_failure env error), st1, calls2)
                | Inr data \<Rightarrow>
                    if nullish data then
                      (Inl (credential_failure env (cannot_read data ''id'')), st1, calls2)
                    else
                      let credentialId = js_get data ''id'';
                          fetched = fetch_complete env issuerDID credentialId data;
                          calls3 = calls2 @ [PostPublish issuerDID] @ snd fetched
                      in
                      (case axios_post_publish env issuerDID of
                         Inl publishError \<Rightarrow> (Inr (fst fetched), st1, calls3)
                       | Inr publishResponse \<Rightarrow> (Inr (fst fetched), st1, calls3)))))"

subsection \<open>The registration route\<close>

record response =
  status :: nat
  body :: jsval

text \<open>The engine's message when \<open>req.body\<close> is null or undefined at the destructuring.\<close>

definition cannot_destructure :: "jsval \<Rightarrow> string \<Rightarrow> js_error" where
  "cannot_destructure v k = TypeError (''Cannot destructure property '' @ [CHR 0x27] @ k
     @ [CHR 0x27] @ '' of '' @ [CHR 0x27] @ ''req.body'' @ [CHR 0x27] @ '' as it is ''
     @ (if v = JNull then ''null'' else ''undefined'') @ ''.'')"

text \<open>
  The part of the answers of registration and login that reports the verification.
  The verdict is always an object, so the alternatives for a missing verdict are never
  taken.
\<close>

definition zkpVerificationDetails :: "env \<Rightarrow> jsval \<Rightarrow> jsval \<Rightarrow> jsval" where
  "zkpVerificationDetails env zkpVerification credential =
     (if truthy zkpVerification then
        JObj [
          (''verified'', js_get zkpVerification ''verified''),
          (''timestamp'', JStr (now_iso env)),
          (''method'', JStr ''issuer-node''),
          (''details'', js_get zkpVerification ''details''),
          (''fullData'',
             if truthy (js_get zkpVerification ''verified'') then
               JObj [
                 (''verification'', JObj [
                    (''verified'', JBool True),
                    (''timestamp'', JStr (now_iso env)),
                    (''method'', JStr ''issuer-node-verification''),
                    (''checks'', JObj [
                       (''structureValid'', JBool True),
                       (''issuerMatch'', JBool True),
                       (''subjectMatch'', JBool True),
                       (''notRevoked'',
                          js_or (js_opt_get (js_get zkpVerification ''details'') ''notRevoked'')
                                (JBool False)),
                       (''proofValid'',
                          JBool (truthy (js_opt_get (js_get zkpVerification ''details'') ''zkpProof'')))])]),
                 (''credential'', credential),
                 (''zkpProof'',
                    js_or (js_opt_get (js_get zkpVerification ''details'') ''zkpProof'') JNull),
                 (''rawData'', js_or (js_get zkpVerification ''rawData'') JNull)]
             else JNull)]
      else JNull)"

definition error500 :: "string \<Rightarrow> js_error \<Rightarrow> response" where
  "error500 what error =
     \<lparr>status = 500,
      body = JObj [(''success'', JBool False), (''error'', JStr what),
                   (''details'', JStr (message error))]\<rparr>"

definition register_userData :: "jsval \<Rightarrow> string \<Rightarrow> jsval" where
  "register_userData name email =
     JObj [
       (''fullName'', name),
       (''email'', JStr email),
       (''authMethod'', JStr ''email''),
       (''accountState'', JStr ''active''),
       (''isVerified'', JBool False)]"

text \<open>
  What follows the two issuance steps: the digest of the password, the verification
  right after issuance (it never throws, so the \<open>catch\<close> around it is never entered),
  the record saved and the answer.
\<close>

definition register_issued ::
  "env \<Rightarrow> state \<Rightarrow> jsval \<Rightarrow> string \<Rightarrow> jsval \<Rightarrow> jsval \<Rightarrow> jsval \<Rightarrow> state \<times> response \<times> call list" where
  "register_issued env st name email password did credential =
     (let passwordHash = hashData env password in
      case verifyCredentialWithIssuer (to_string env) (axios_get_credential_verify env)
             (now_iso env) credential did (url_value env) of
        (zkpVerification, calls) \<Rightarrow>
          let zkpData = extractZkpDataFromCredential credential did;
              zkpVerified = js_or (js_opt_get zkpVerification ''verified'') (JBool False)
          in
          (saveUser env st email [
             (''name'', name),
             (''email'', JStr email),
             (''password'', JStr passwordHash),
             (''did'', did),
             (''credential'', credential),
             (''zkpData'', zkpData),
             (''authMethod'', JStr ''email''),
             (''accountState'', JStr ''active''),
             (''createdAt'', JStr (now_iso env)),
             (''zkpVerified'', zkpVerified),
             (''zkpVerificationDate'', JStr (now_iso env))],
           \<lparr>status = 200,
            body = JObj [
              (''success'', JBool True),
              (''message'', JStr ''Usuario registrado exitosamente''),
              (''did'', did),
              (''credential'', credential),
              (''zkpData'', zkpData),
              (''user'', JObj [
                 (''name'', name),
                 (''email'', JStr email),
                 (''did'', did),
                 (''type'', JStr ''email''),
                 (''state'', JStr ''active''),
                 (''authMethod'', JStr ''email''),
                 (''zkpVerified'', zkpVerified),
                 (''zkpVerificationDetails'',
                    zkpVerificationDetails env zkpVerification credential)]),
              (''timestamp'', JStr (now_iso env))]\<rparr>,
           calls))"

definition register_checked ::
  "env \<Rightarrow> state \<Rightarrow> jsval \<Rightarrow> string \<Rightarrow> jsval \<Rightarrow> state \<times> response \<times> call list" where
  "register_checked env st name email password =
     (let userData = register_userData name email in
      case createDIDInIssuer env userData of
        (Inl error, calls1) \<Rightarrow> (st, error500 ''Error al crear cuenta'' error, calls1)
      | (Inr issuerResponse, calls1) \<Rightarrow>
          let did = js_get issuerResponse ''identifier'' in
          (case createCredentialInIssuer env st did userData of
             (Inl error, st1, calls2) \<Rightarrow>
               (st1, error500 ''Error al crear cuenta'' error, calls1 @ calls2)
           | (Inr credential, st1, calls2) \<Rightarrow>
               (case register_issued env st1 name email password did credential of
                  (st2, res, calls3) \<Rightarrow> (st2, res, calls1 @ calls2 @ calls3))))"

text \<open>
  \<open>POST /api/register\<close>, with \<open>req.body\<close> as its argument.  An \<open>email\<close> that is truthy
  but no string has no \<open>toLowerCase\<close>: \<open>userExists\<close> throws and the route answers 500.
\<close>

definition register :: "env \<Rightarrow> state \<Rightarrow> jsval \<Rightarrow> state \<times> response \<times> call list" where
  "register env st req_body =
     (if nullish req_body then
        (st, error500 ''Error al crear cuenta'' (cannot_destructure req_body ''name''), [])
      else
        let name = js_get req_body ''name'';
            email = js_get req_body ''email'';
            password = js_get req_body ''password''
        in
        if \<not> truthy name \<or> \<not> truthy email \<or> \<not> truthy password then
          (st, \<lparr>status = 400,
                body = JObj [(''success'', JBool False),
                             (''error'', JStr ''Faltan datos requeridos'')]\<rparr>, [])
        else case email of
          JStr e \<Rightarrow>
            if userExists st e then
              (st, \<lparr>status = 400,
                    body = JObj [(''success'', JBool False),
                      (''error'', JStr (''El email ya est'' @ [CHR 0xC3, CHR 0xA1] @ '' registrado. Por favor, inicia sesi'' @ [CHR 0xC3, CHR 0xB3] @ ''n.''))]\<rparr>, [])
            else if validateUserData (register_userData name e) \<noteq> [] then
              (st, \<lparr>status = 400,
                    body = JObj [(''success'', JBool False),
                      (''error'', JStr (''Datos inv'' @ [CHR 0xC3, CHR 0xA1] @ ''lidos'')),
                      (''details'', JArr (map JStr (validateUserData (register_userData name e))))]\<rparr>, [])
            else if \<not> validateEmail e then
              (st, \<lparr>status = 400,
                    body = JObj [(''success'', JBool False),
                                 (''error'', JStr (''Email inv'' @ [CHR 0xC3, CHR 0xA1] @ ''lido''))]\<rparr>, [])
            else register_checked env st name e password
        | _ \<Rightarrow>
            (st, error500 ''Error al crear cuenta'' (not_a_function ''email.toLowerCase''), []))"

subsection \<open>The login route\<close>

text \<open>The denial after a negative verdict: the wording depends on the stage.\<close>

definition login_denied :: "jsval \<Rightarrow> jsval \<Rightarrow> response" where
  "login_denied zkpVerification credential =
     (let stage = js_get zkpVerification ''stage'';
          prefix = ([CHR 0xF0, CHR 0x9F, CHR 0x94, CHR 0x90] @ '' Acceso denegado: Tu credencial ZKP no pas'' @ [CHR 0xC3, CHR 0xB3] @ '' la verificaci'' @ [CHR 0xC3, CHR 0xB3] @ ''n. '');
          (errorMessage, detailsMessage) =
            (if strict_eq stage (JStr ''structure_validation'') then
               (prefix @ (''La estructura de la credencial no es v'' @ [CHR 0xC3, CHR 0xA1] @ ''lida.''),
                JStr (''La credencial no cumple con el formato W3C Verifiable Credential est'' @ [CHR 0xC3, CHR 0xA1] @ ''ndar.''))
             else if strict_eq stage (JStr ''issuer_node_connection'') then
               (prefix @ ''No se pudo contactar con el Issuer Node para verificar.'',
                JStr (''El servidor de verificaci'' @ [CHR 0xC3, CHR 0xB3] @ ''n (Issuer Node) no est'' @ [CHR 0xC3, CHR 0xA1] @ '' disponible. Intenta m'' @ [CHR 0xC3, CHR 0xA1] @ ''s tarde.''))
             else if strict_eq stage (JStr ''credential_retrieval'') then
               (prefix @ ''La credencial no existe en el Issuer Node.'',
                JStr ''Tu credencial no fue encontrada en el registro del emisor. Puede haber sido eliminada o nunca fue publicada correctamente.'')
             else if strict_eq stage (JStr ''revocation_check'') then
               (prefix @ ''La credencial ha sido revocada.'',
                JStr (''Tu credencial fue revocada por el emisor y ya no es v'' @ [CHR 0xC3, CHR 0xA1] @ ''lida para autenticaci'' @ [CHR 0xC3, CHR 0xB3] @ ''n.''))
             else if strict_eq stage (JStr ''data_comparison'') then
               (prefix @ ''Los datos de la credencial no coinciden.'',
                JStr ''Los datos almacenados localmente no coinciden con los del Issuer Node.'')
             else
               (prefix @ (''Error desconocido en la verificaci'' @ [CHR 0xC3, CHR 0xB3] @ ''n.''),
                js_or (js_get zkpVerification ''error'')
                      (JStr ''La credencial no pudo ser verificada correctamente.'')))
      in
      \<lparr>status = 401,
       body = JObj [
         (''success'', JBool False),
         (''verified'', JBool False),
         (''error'', JStr errorMessage),
         (''details'', detailsMessage),
         (''technicalReason'', js_get zkpVerification ''error''),
         (''stage'', js_get zkpVerification ''stage''),
         (''credentialId'', js_get credential ''id''),
         (''zkpVerificationFailed'', JBool True)]\<rparr>)"

definition login_success :: "env \<Rightarrow> jsval \<Rightarrow> jsval \<Rightarrow> response" where
  "login_success env user zkpVerification =
     \<lparr>status = 200,
      body = JObj [
        (''success'', JBool True),
        (''message'', JStr ''Login exitoso''),
        (''did'', js_get user ''did''),
        (''credential'', js_get user ''credential''),
        (''zkpData'', js_get user ''zkpData''),
        (''user'', JObj [
           (''name'', js_get user ''name''),
           (''email'', js_get user ''email''),
           (''did'', js_get user ''did''),
           (''type'', JStr ''email''),
           (''state'', js_or (js_get user ''accountState'') (JStr ''active'')),
           (''authMethod'', JStr ''email''),
           (''zkpVerified'', js_or (js_opt_get zkpVerification ''verified'') (JBool False)),
           (''zkpVerificationDetails'',
              zkpVerificationDetails env zkpVerification (js_get user ''credential''))]),
        (''timestamp'', JStr (now_iso env))]\<rparr>"

text \<open>
  The mandatory verification of a user whose password matched.  The guard on the stored
  credential comes first and sends no request.  The verifier never throws, so the
  \<open>catch\<close> that would answer 503 is never entered.
\<close>

definition login_verify :: "env \<Rightarrow> jsval \<Rightarrow> response \<times> call list" where
  "login_verify env user =
     (if \<not> truthy (js_get user ''credential'')
         \<or> \<not> truthy (js_get (js_get user ''credential'') ''credentialSubject'')
      then
        (\<lparr>status = 401,
          body = JObj [
            (''success'', JBool False),
            (''error'', JStr (''Tu cuenta no tiene una credencial ZKP v'' @ [CHR 0xC3, CHR 0xA1] @ ''lida registrada. La credencial es necesaria para autenticarte. Contacta al administrador del sistema.'')),
            (''reason'', if \<not> truthy (js_get user ''credential'') then JStr ''NO_CREDENTIAL''
                         else JStr ''INVALID_CREDENTIAL_STRUCTURE''),
            (''requiresCredential'', JBool True)]\<rparr>, [])
      else
        let issuerDID = js_or (js_get (js_get user ''credential'') ''issuer'') (js_get user ''did'')
        in
        case verifyCredentialWithIssuer (to_string env) (axios_get_credential_verify env)
               (now_iso env) (js_get user ''credential'') issuerDID (url_value env) of
          (zkpVerification, calls) \<Rightarrow>
            if \<not> truthy (js_get zkpVerification ''verified'')
            then (login_denied zkpVerification (js_get user ''credential''), calls)
            else (login_success env user zkpVerification, calls))"

text \<open>
  \<open>POST /api/login\<close>, with \<open>req.body\<close> as its argument.  The route reads the state and
  never writes it.
\<close>

definition login :: "env \<Rightarrow> state \<Rightarrow> jsval \<Rightarrow> response \<times> call list" where
  "login env st req_body =
     (if nullish req_body then
        (error500 (''Error al iniciar sesi'' @ [CHR 0xC3, CHR 0xB3] @ ''n'') (cannot_destructure req_body ''email''), [])
      else
        let email = js_get req_body ''email'';
            password = js_get req_body ''password''
        in
        if \<not> truthy email \<or> \<not> truthy password then
          (\<lparr>status = 400,
            body = JObj [(''success'', JBool False), (''error'', JStr ''Faltan credenciales'')]\<rparr>, [])
        else case email of
          JStr e \<Rightarrow>
            let user = getUser st e in
            if \<not> truthy user then
              (\<lparr>status = 401,
                body = JObj [(''success'', JBool False),
                  (''error'', JStr (''Usuario no encontrado. Por favor, reg'' @ [CHR 0xC3, CHR 0xAD] @ ''strate primero.''))]\<rparr>, [])
            else if \<not> strict_eq (js_get user ''password'') (JStr (hashData env password)) then
              (\<lparr>status = 401,
                body = JObj [(''success'', JBool False),
                             (''error'', JStr (''Contrase'' @ [CHR 0xC3, CHR 0xB1] @ ''a incorrecta''))]\<rparr>, [])
            else login_verify env user
        | _ \<Rightarrow>
            (error500 (''Error al iniciar sesi'' @ [CHR 0xC3, CHR 0xB3] @ ''n'') (not_a_function ''email.toLowerCase''), []))"

section \<open>Notions used in the statements\<close>

text \<open>
  The condition keys \<open>createCombinedQuery\<close> reads, the attribute names it can write and
  the operators it can attach.  A plain query has each attribute at most once, and under
  each attribute one object with a single operator: a conjunction of atomic predicates.
\<close>

definition recognised :: "string list" where
  "recognised = [''isVerified'', ''accountState'', ''authMethod'', ''minAge'', ''hasEmail'', ''hasWallet'']"

definition attributes :: "string list" where
  "attributes = [''isVerified'', ''accountState'', ''authMethod'', ''registrationDate'', ''email'', ''walletAddress'']"

definition operators :: "string list" where
  "operators = [''$eq'', ''$lt'', ''$exists'']"

definition plain_entry :: "string \<times> jsval \<Rightarrow> bool" where
  "plain_entry e \<longleftrightarrow> fst e \<in> set attributes \<and> (\<exists>op v. snd e = JObj [(op, v)] \<and> op \<in> set operators)"

definition plain_query :: "(string \<times> jsval) list \<Rightarrow> bool" where
  "plain_query q \<longleftrightarrow> distinct (map fst q) \<and> (\<forall>e \<in> set q. plain_entry e)"

text \<open>The state of the query after the first three conditionals, and the effect of the last two.\<close>

definition first_three :: "jsval \<Rightarrow> (string \<times> jsval) list" where
  "first_three c =
     assign_if (truthy (js_get c ''authMethod''))
       ''authMethod'' (JObj [(''$eq'', js_get c ''authMethod'')])
       (assign_if (truthy (js_get c ''accountState''))
          ''accountState'' (JObj [(''$eq'', js_get c ''accountState'')])
          (assign_if (js_get c ''isVerified'' \<noteq> JUndefined)
             ''isVerified'' (JObj [(''$eq'', js_get c ''isVerified'')]) []))"

definition last_two :: "jsval \<Rightarrow> (string \<times> jsval) list \<Rightarrow> (string \<times> jsval) list" where
  "last_two c q =
     assign_if (truthy (js_get c ''hasWallet''))
       ''walletAddress'' (JObj [(''$exists'', JBool True)])
       (assign_if (truthy (js_get c ''hasEmail''))
          ''email'' (JObj [(''$exists'', JBool True)]) q)"






section \<open>Sample data\<close>

text \<open>Concrete values on which the theorems below are instantiated.\<close>

definition sample_proof :: jsval where
  "sample_proof =
     JObj [
       (''type'', JStr ''BJJSignature2021''),
       (''signature'', JStr ''3f9a1c0de2b47a6655d1e0c9a8b7f6e5d4c3b2a1908172635445362718''),
       (''coreClaim'', JStr ''c9b2e7a1000000000000000000000002a41f5d3c7b9e00112233445566778899aabbccddeeff''),
       (''issuerData'', JObj [
          (''id'', JStr ''did:polygonid:polygon:amoy:issuer''),
          (''state'', JObj [
             (''value'', JStr ''7d6e5f4a3b2c1d0e9f8a7b6c5d4e3f2a1b0c''),
             (''claimsTreeRoot'', JStr ''0a1b2c3d4e5f60718293a4b5c6d7e8f90a1b'')]),
          (''authCoreClaim'', JStr ''cca3371a6cb1b715004407e325bd993c000000000000000000000000000000''),
          (''mtp'', JObj [(''existence'', JBool True), (''siblings'', JArr [JStr ''0'', JStr ''1''])])])]"

definition sample_credential :: jsval where
  "sample_credential =
     JObj [
       (''id'', JStr ''urn:uuid:c1''),
       (''type'', JArr [JStr ''VerifiableCredential'', JStr ''ZKPAuthCredential'']),
       (''issuer'', JStr ''did:polygonid:polygon:amoy:issuer''),
       (''issuanceDate'', JStr ''2025-01-01T00:00:00Z''),
       (''credentialSubject'', JObj [
          (''id'', JStr ''did:polygonid:polygon:amoy:ana''),
          (''fullName'', JStr ''Ana Ruiz''),
          (''email'', JStr ''ana@example.com'')]),
       (''proof'', JArr [sample_proof])]"

text \<open>The same credential with the tag \<open>VerifiableCredential\<close> missing from its type.\<close>

definition untagged_credential :: jsval where
  "untagged_credential =
     JObj [
       (''id'', JStr ''urn:uuid:c1''),
       (''type'', JArr [JStr ''ZKPAuthCredential'']),
       (''issuer'', JStr ''did:polygonid:polygon:amoy:issuer''),
       (''issuanceDate'', JStr ''2025-01-01T00:00:00Z''),
       (''credentialSubject'', JObj [
          (''id'', JStr ''did:polygonid:polygon:amoy:ana''),
          (''fullName'', JStr ''Ana Ruiz''),
          (''email'', JStr ''ana@example.com'')]),
       (''proof'', JArr [sample_proof])]"

definition timeout_error :: js_error where
  "timeout_error = JsError ''timeout of 5000ms exceeded'' (JStr ''ECONNABORTED'') None"

definition issuer_down :: "jsval \<Rightarrow> string \<Rightarrow> http" where
  "issuer_down issuerDID credentialId = Inl timeout_error"

definition sample_conditions :: jsval where
  "sample_conditions =
     JObj [
       (''isVerified'', JBool True),
       (''$or'', JArr [JObj [(''accountState'', JStr ''active'')],
                       JObj [(''accountState'', JStr ''pending'')]]),
       (''accountState'', JStr ''active''),
       (''minAge'', JNum 30),
       (''favouriteColour'', JStr ''blue'')]"

definition known_conditions :: jsval where
  "known_conditions =
     JObj [
       (''isVerified'', JBool True),
       (''accountState'', JStr ''active''),
       (''minAge'', JNum 30)]"

definition no_conversion :: "jsval \<Rightarrow> js_error + jsval" where
  "no_conversion v = Inr JNaN"

definition issuer_did :: string where
  "issuer_did = ''did:polygonid:polygon:amoy:issuer''"

definition ana_did :: string where
  "ana_did = ''did:polygonid:polygon:amoy:ana''"

text \<open>What the Issuer Node answers to a look-up of the sample credential.\<close>

definition sample_record :: jsval where
  "sample_record =
     JObj [
       (''id'', JStr ''c1''),
       (''revoked'', JBool False),
       (''vc'', sample_credential),
       (''proofTypes'', JArr [JStr ''BJJSignature2021''])]"

definition revoked_record :: jsval where
  "revoked_record =
     JObj [
       (''id'', JStr ''c1''),
       (''revoked'', JBool True),
       (''vc'', sample_credential),
       (''proofTypes'', JArr [JStr ''BJJSignature2021''])]"

text \<open>The credential as the Issuer Node holds it before any state was published.\<close>

definition unpublished_credential :: jsval where
  "unpublished_credential =
     JObj [
       (''id'', JStr ''urn:uuid:c1''),
       (''type'', JArr [JStr ''VerifiableCredential'', JStr ''ZKPAuthCredential'']),
       (''issuer'', JStr ''did:polygonid:polygon:amoy:issuer''),
       (''issuanceDate'', JStr ''2025-01-01T00:00:00Z''),
       (''credentialSubject'', JObj [
          (''id'', JStr ''did:polygonid:polygon:amoy:ana''),
          (''fullName'', JStr ''Ana Ruiz''),
          (''email'', JStr ''ana@example.com'')])]"

text \<open>A toy digest that tells passwords apart.\<close>

definition toy_digest :: "jsval \<Rightarrow> string" where
  "toy_digest v = (case v of JStr s \<Rightarrow> ''sha256:'' @ s | _ \<Rightarrow> ''sha256:other'')"

definition no_text :: "jsval \<Rightarrow> js_error + string" where
  "no_text v = Inr ''[object Object]''"

text \<open>An Issuer Node that answers every request.\<close>

definition sample_env :: env where
  "sample_env =
     \<lparr>ISSUER_NODE_URL = Some ''http://localhost:3001'',
      axios_get_identities = Inr (JArr [JObj [(''identifier'', JStr issuer_did)]]),
      axios_post_identities = (\<lambda>request. Inr (JObj [(''identifier'', JStr ana_did)])),
      axios_post_credentials = (\<lambda>issuerDID request. Inr (JObj [(''id'', JStr ''c1'')])),
      axios_post_publish = (\<lambda>issuerDID. Inr (JObj [])),
      axios_get_credential = (\<lambda>issuerDID credentialId. Inr sample_record),
      axios_get_credential_verify = (\<lambda>issuerDID credentialId. Inr sample_record),
      now_seconds = 1700000000,
      now_iso = ''2025-01-02T00:00:00.000Z'',
      hashData = toy_digest,
      to_number = no_conversion,
      to_string = no_text\<rparr>"

definition empty_state :: state where
  "empty_state = \<lparr>ISSUER_DID = JNull, usersStore = Map.empty\<rparr>"

definition ana_request :: jsval where
  "ana_request =
     JObj [(''name'', JStr ''Ana Ruiz''), (''email'', JStr ''ana@example.com''),
           (''password'', JStr ''s3cr3t'')]"

text \<open>A state in which Ana is registered, with a credential and without one.\<close>

definition ana_user :: "jsval \<Rightarrow> jsval" where
  "ana_user credential =
     JObj [
       (''name'', JStr ''Ana Ruiz''),
       (''email'', JStr ''ana@example.com''),
       (''password'', JStr ''sha256:s3cr3t''),
       (''did'', JStr ana_did),
       (''credential'', credential),
       (''zkpData'', extractZkpDataFromCredential credential (JStr ana_did)),
       (''authMethod'', JStr ''email''),
       (''accountState'', JStr ''active'')]"

definition state_with :: "jsval \<Rightarrow> state" where
  "state_with user =
     \<lparr>ISSUER_DID = JStr issuer_did, usersStore = [''ana@example.com'' \<mapsto> user]\<rparr>"

definition refused_error :: js_error where
  "refused_error =
     JsError ''connect ECONNREFUSED 127.0.0.1:3001'' (JStr ''ECONNREFUSED'') None"

text \<open>The Issuer Node is not running.\<close>

definition refused_env :: env where
  "refused_env = sample_env\<lparr>axios_post_identities := (\<lambda>request. Inl refused_error)\<rparr>"

text \<open>The request for a new identity runs into the time-out.\<close>

definition timeout_env :: env where
  "timeout_env = sample_env\<lparr>axios_post_identities := (\<lambda>request. Inl timeout_error)\<rparr>"

text \<open>The re-fetch of the credential after publishing fails.\<close>

definition fetch_down_env :: env where
  "fetch_down_env = sample_env\<lparr>axios_get_credential := (\<lambda>issuerDID credentialId. Inl timeout_error)\<rparr>"

text \<open>Publishing the state fails, and the credential fetched afterwards has no proof.\<close>

definition unpublished_record :: jsval where
  "unpublished_record =
     JObj [
       (''id'', JStr ''c1''),
       (''revoked'', JBool False),
       (''vc'', unpublished_credential)]"

definition publish_down_env :: env where
  "publish_down_env =
     sample_env\<lparr>axios_post_publish := (\<lambda>issuerDID. Inl timeout_error),
                axios_get_credential := (\<lambda>issuerDID credentialId. Inr unpublished_record),
                axios_get_credential_verify := (\<lambda>issuerDID credentialId. Inr unpublished_record)\<rparr>"

text \<open>The look-up of the verifier reports the credential as revoked.\<close>

definition revoked_env :: env where
  "revoked_env =
     sample_env\<lparr>axios_get_credential_verify := (\<lambda>issuerDID credentialId. Inr revoked_record)\<rparr>"

definition wrong_password_request :: jsval where
  "wrong_password_request =
     JObj [(''email'', JStr ''ana@example.com''), (''password'', JStr ''guess'')]"

section \<open>Properties\<close>

subsection \<open>Auxiliary lemmas\<close>

lemma type_not_ok_invalid:
  assumes "\<not> (isArray (js_get credential ''type'')
              \<and> includes_str (js_get credential ''type'') ''VerifiableCredential'')"
  shows "\<exists>e. validateCredentialStructure credential = Invalid e"
  using assms by (auto simp: validateCredentialStructure_def split: option.splits)

lemma connection_failure_fields:
  "js_get (connection_failure u d e) ''verified'' = JBool False"
  "js_get (connection_failure u d e) ''stage'' = JStr ''issuer_node_connection''"
  by (simp_all add: connection_failure_def)

lemma check_issuer_record_verified:
  assumes "check_issuer_record stamp credential issuerDID cid data = Inr verdict"
    and "js_get verdict ''verified'' = JBool True"
  shows "\<not> nullish data \<and> \<not> truthy (js_get data ''revoked'')
         \<and> compareCredentialData credential (js_get data ''vc'') = Valid"
  using assms
  by (auto simp: check_issuer_record_def bind_def split: if_splits validation.splits sum.splits)

lemma set_update_cases:
  "x \<in> set (AList.update k v al) \<Longrightarrow> x = (k, v) \<or> x \<in> set al"
  by (induction al) (auto split: if_splits)

lemma all_update:
  assumes "\<forall>x \<in> set al. P x" and "P (k, v)"
  shows "\<forall>x \<in> set (AList.update k v al). P x"
proof
  fix x assume "x \<in> set (AList.update k v al)"
  then have "x = (k, v) \<or> x \<in> set al" by (rule set_update_cases)
  with assms show "P x" by auto
qed

lemma plain_query_assign:
  assumes "plain_query q" and "plain_entry (k, v)"
  shows "plain_query (assign_if b k v q)"
proof (cases b)
  case True
  from assms have "distinct (map fst (AList.update k v q))"
    unfolding plain_query_def by (simp add: distinct_update)
  moreover have "\<forall>e \<in> set (AList.update k v q). plain_entry e"
  proof (rule all_update)
    from assms(1) show "\<forall>e \<in> set q. plain_entry e" by (simp add: plain_query_def)
    from assms(2) show "plain_entry (k, v)" .
  qed
  ultimately show ?thesis using True by (simp add: plain_query_def assign_if_def)
next
  case False
  with assms(1) show ?thesis by (simp add: assign_if_def)
qed

lemma plain_query_Nil: "plain_query []"
  by (simp add: plain_query_def)

lemma plain_entries:
  "plain_entry (''isVerified'', JObj [(''$eq'', v)])"
  "plain_entry (''accountState'', JObj [(''$eq'', v)])"
  "plain_entry (''authMethod'', JObj [(''$eq'', v)])"
  "plain_entry (''registrationDate'', JObj [(''$lt'', v)])"
  "plain_entry (''email'', JObj [(''$exists'', v)])"
  "plain_entry (''walletAddress'', JObj [(''$exists'', v)])"
  by (simp_all add: plain_entry_def attributes_def operators_def)

lemma map_of_assign_if:
  "map_of (assign_if b k v q) k' = (if b \<and> k' = k then Some v else map_of q k')"
  by (auto simp add: assign_if_def update_conv')

lemma createCombinedQuery_unfold:
  assumes "\<not> nullish c"
  shows "createCombinedQuery tn now c =
     (if truthy (js_get c ''minAge'')
      then bind (minTimestamp tn now (js_get c ''minAge''))
             (\<lambda>t. Inr (JObj (last_two c
                (assign_if True ''registrationDate'' (JObj [(''$lt'', t)]) (first_three c)))))
      else Inr (JObj (last_two c (first_three c))))"
  using assms
  by (simp add: createCombinedQuery_def Let_def bind_def first_three_def last_two_def
      split: sum.splits)

lemma combined_cases:
  assumes "createCombinedQuery tn now c = Inr query"
  obtains (aged) t where "truthy (js_get c ''minAge'')"
      and "minTimestamp tn now (js_get c ''minAge'') = Inr t"
      and "query = JObj (last_two c
             (assign_if True ''registrationDate'' (JObj [(''$lt'', t)]) (first_three c)))"
  | (plain) "\<not> truthy (js_get c ''minAge'')"
      and "query = JObj (last_two c (first_three c))"
proof -
  have nn: "\<not> nullish c" using assms by (auto simp: createCombinedQuery_def)
  show thesis
  proof (cases "truthy (js_get c ''minAge'')")
    case True
    show thesis
    proof (cases "minTimestamp tn now (js_get c ''minAge'')")
      case (Inl e)
      with assms True nn show thesis by (simp add: createCombinedQuery_unfold bind_def)
    next
      case (Inr t)
      with assms True nn have "query = JObj (last_two c
             (assign_if True ''registrationDate'' (JObj [(''$lt'', t)]) (first_three c)))"
        by (simp add: createCombinedQuery_unfold bind_def)
      with True Inr show thesis by (rule aged)
    qed
  next
    case False
    with assms nn have "query = JObj (last_two c (first_three c))"
      by (simp add: createCombinedQuery_unfold)
    with False show thesis by (rule plain)
  qed
qed

lemma plain_first_three: "plain_query (first_three c)"
  unfolding first_three_def
  by (intro plain_query_assign plain_query_Nil plain_entries)

lemma plain_last_two: "plain_query q \<Longrightarrow> plain_query (last_two c q)"
  unfolding last_two_def
  by (intro plain_query_assign plain_entries)

lemma combined_shape:
  assumes "createCombinedQuery tn now c = Inr query"
  shows "\<exists>entries. query = JObj entries \<and> plain_query entries"
  using assms
proof (cases rule: combined_cases)
  case (aged t)
  have "plain_query (last_two c
             (assign_if True ''registrationDate'' (JObj [(''$lt'', t)]) (first_three c)))"
    by (intro plain_last_two plain_query_assign plain_first_three plain_entries)
  with aged(3) show ?thesis by blast
next
  case plain
  have "plain_query (last_two c (first_three c))"
    by (intro plain_last_two plain_first_three)
  with plain(2) show ?thesis by blast
qed

lemma combined_ignores_unknown:
  assumes "\<not> nullish c" "\<not> nullish c'" "\<forall>k \<in> set recognised. js_get c' k = js_get c k"
  shows "createCombinedQuery tn now c' = createCombinedQuery tn now c"
  using assms
  by (simp add: createCombinedQuery_unfold first_three_def last_two_def recognised_def)

lemma get_last_two:
  "js_get (JObj (last_two c q)) k =
     (if truthy (js_get c ''hasWallet'') \<and> k = ''walletAddress'' then JObj [(''$exists'', JBool True)]
      else if truthy (js_get c ''hasEmail'') \<and> k = ''email'' then JObj [(''$exists'', JBool True)]
      else js_get (JObj q) k)"
  by (simp add: last_two_def map_of_assign_if)

lemma get_first_three:
  "js_get (JObj (first_three c)) k =
     (if truthy (js_get c ''authMethod'') \<and> k = ''authMethod'' then JObj [(''$eq'', js_get c ''authMethod'')]
      else if truthy (js_get c ''accountState'') \<and> k = ''accountState'' then JObj [(''$eq'', js_get c ''accountState'')]
      else if js_get c ''isVerified'' \<noteq> JUndefined \<and> k = ''isVerified'' then JObj [(''$eq'', js_get c ''isVerified'')]
      else JUndefined)"
  by (simp add: first_three_def map_of_assign_if)

lemma get_assign:
  "js_get (JObj (assign_if b a v q)) k = (if b \<and> k = a then v else js_get (JObj q) k)"
  by (simp add: map_of_assign_if)

lemma combined_entries:
  assumes "createCombinedQuery tn now c = Inr query"
  shows "js_get query ''isVerified'' = (if js_get c ''isVerified'' \<noteq> JUndefined then JObj [(''$eq'', js_get c ''isVerified'')] else JUndefined)
   \<and> js_get query ''accountState'' = (if truthy (js_get c ''accountState'') then JObj [(''$eq'', js_get c ''accountState'')] else JUndefined)
   \<and> js_get query ''authMethod'' = (if truthy (js_get c ''authMethod'') then JObj [(''$eq'', js_get c ''authMethod'')] else JUndefined)
   \<and> js_get query ''email'' = (if truthy (js_get c ''hasEmail'') then JObj [(''$exists'', JBool True)] else JUndefined)
   \<and> js_get query ''walletAddress'' = (if truthy (js_get c ''hasWallet'') then JObj [(''$exists'', JBool True)] else JUndefined)
   \<and> js_get query ''registrationDate'' =
        (if truthy (js_get c ''minAge'')
         then (case minTimestamp tn now (js_get c ''minAge'') of Inr t \<Rightarrow> JObj [(''$lt'', t)] | Inl e \<Rightarrow> JUndefined)
         else JUndefined)"
  using assms
proof (cases rule: combined_cases)
  case (aged t)
  then show ?thesis by (simp add: get_last_two get_assign get_first_three del: js_get.simps)
next
  case plain
  then show ?thesis by (simp add: get_last_two get_assign get_first_three del: js_get.simps)
qed

lemma combined_total:
  assumes "\<not> nullish c"
    and "truthy (js_get c ''minAge'') \<longrightarrow> (\<exists>t. minTimestamp tn now (js_get c ''minAge'') = Inr t)"
  shows "\<exists>query. createCombinedQuery tn now c = Inr query"
  using assms by (auto simp: createCombinedQuery_unfold bind_def)

lemma getIssuerDID_effect:
  assumes "getIssuerDID env st = (d, st1, calls)"
  shows "usersStore st1 = usersStore st \<and> set calls \<subseteq> {GetIdentities}"
  using assms
  by (auto simp: getIssuerDID_def split: if_splits sum.splits bool.splits)

lemma createDIDInIssuer_calls:
  "snd (createDIDInIssuer env userData) = [PostIdentities identityRequest]"
  by (simp add: createDIDInIssuer_def)

lemma createDIDInIssuer_failure:
  assumes "axios_post_identities env identityRequest = Inl error"
  shows "createDIDInIssuer env userData =
    (Inl (new_Error (''No se pudo crear el DID (Identidad Descentralizada). ''
       @ did_errorDetail env error
       @ ''. Sin un DID v'' @ [CHR 0xC3, CHR 0xA1] @ ''lido del Issuer Node no es posible crear credenciales ZKP con firma criptogr'' @ [CHR 0xC3, CHR 0xA1] @ ''fica real. Contacta al administrador del sistema.'')),
     [PostIdentities identityRequest])"
  using assms by (simp add: createDIDInIssuer_def bind_def)

lemma strict_eq_JStr: "strict_eq a (JStr s) = (a = JStr s)"
  by (cases a) (auto simp: strict_eq_def)

lemma strict_eq_status:
  "strict_eq (response_status error) (JNum n) = (map_option fst (response error) = Some (JNum n))"
  by (cases "response error") (auto simp: strict_eq_def response_status_def split: prod.splits jsval.splits)

lemma did_errorDetail_classes:
  "did_errorDetail env error =
     (if code error = JStr ''ECONNABORTED'' then
        ''Tiempo de espera agotado. El Issuer Node est'' @ [CHR 0xC3, CHR 0xA1] @ '' tardando demasiado en responder.''
      else if code error = JStr ''ECONNREFUSED'' then
        ''El Issuer Node no est'' @ [CHR 0xC3, CHR 0xA1] @ '' en ejecuci'' @ [CHR 0xC3, CHR 0xB3] @ ''n o no es accesible en ''
          @ (case ISSUER_NODE_URL env of None \<Rightarrow> ''undefined'' | Some u \<Rightarrow> u)
      else if map_option fst (response error) = Some (JNum 401) then
        ''Credenciales de autenticaci'' @ [CHR 0xC3, CHR 0xB3] @ ''n inv'' @ [CHR 0xC3, CHR 0xA1] @ ''lidas para el Issuer Node.''
      else if map_option fst (response error) = Some (JNum 500) then
        ''El Issuer Node encontr'' @ [CHR 0xC3, CHR 0xB3] @ '' un error interno al procesar la solicitud.''
      else message error)"
  unfolding did_errorDetail_def strict_eq_JStr strict_eq_status url_text_def by simp

lemma fetch_complete_calls:
  "snd (fetch_complete env d c created) = []
   \<or> snd (fetch_complete env d c created) = [GetCredential d c]"
  by (simp add: fetch_complete_def split: sum.splits)




lemma createCredentialInIssuer_cases:
  assumes "createCredentialInIssuer env st did userData = (r, st1, calls)"
  obtains (failed) error where "r = Inl error" "usersStore st1 = usersStore st"
      "\<forall>i. PostPublish i \<notin> set calls"
  | (issued) issuerDID' data pre where
      "r = Inr (fst (fetch_complete env issuerDID' (js_get data ''id'') data))"
      "usersStore st1 = usersStore st"
      "truthy issuerDID'" "\<not> nullish data"
      "axios_post_credentials env issuerDID' (credentialRequest_of env did userData) = Inr data"
      "calls = pre @ [PostCredentials issuerDID' (credentialRequest_of env did userData),
                      PostPublish issuerDID']
                 @ snd (fetch_complete env issuerDID' (js_get data ''id'') data)"
      "set pre \<subseteq> {GetIdentities}"
proof -
  obtain d st0 c0 where g: "getIssuerDID env st = (d, st0, c0)"
    by (cases "getIssuerDID env st") auto
  note eff = getIssuerDID_effect [OF g]
  show thesis
  proof (cases "truthy d \<and> \<not> nullish userData")
    case False
    with assms g eff have "\<exists>error. r = Inl error" "usersStore st1 = usersStore st" "set calls \<subseteq> {GetIdentities}"
      by (auto simp: createCredentialInIssuer_def split: if_splits)
    then show thesis using failed by blast
  next
    case True
    show thesis
    proof (cases "ToString (to_string env) d")
      case (Inl e)
      with assms g True eff have "\<exists>error. r = Inl error" "usersStore st1 = usersStore st"
        "set calls \<subseteq> {GetIdentities}"
        by (auto simp: createCredentialInIssuer_def Let_def)
      then show thesis using failed by blast
    next
      case conv: (Inr did_text)
      show thesis
      proof (cases "axios_post_credentials env d (credentialRequest_of env did userData)")
        case (Inl e)
        with assms g True conv eff have "\<exists>error. r = Inl error" "usersStore st1 = usersStore st"
          "calls = c0 @ [PostCredentials d (credentialRequest_of env did userData)]"
          by (auto simp: createCredentialInIssuer_def Let_def)
        with eff show thesis using failed by auto
      next
        case (Inr data)
        show thesis
        proof (cases "nullish data")
          case n: True
          with assms g True conv Inr have "\<exists>error. r = Inl error" "usersStore st1 = usersStore st"
            "calls = c0 @ [PostCredentials d (credentialRequest_of env did userData)]"
            using eff by (auto simp: createCredentialInIssuer_def Let_def)
          with eff show thesis using failed by auto
        next
          case n: False
          with assms g True conv Inr have
            "r = Inr (fst (fetch_complete env d (js_get data ''id'') data))"
            "usersStore st1 = usersStore st"
            "calls = c0 @ [PostCredentials d (credentialRequest_of env did userData),
                        PostPublish d] @ snd (fetch_complete env d (js_get data ''id'') data)"
            using eff by (auto simp: createCredentialInIssuer_def Let_def split: sum.splits)
          with True n Inr eff show thesis using issued by blast
        qed
      qed
    qed
  qed
qed

lemma verify_calls:
  assumes "verifyCredentialWithIssuer conv ax stamp credential d url = (v, calls)"
  shows "calls = [] \<or> (\<exists>cid. calls = [GetCredential d (JStr cid)])"
  using assms
  by (auto simp: verifyCredentialWithIssuer_def Let_def
      split: if_splits validation.splits jsval.splits sum.splits)

lemma register_sent:
  assumes "register env st req = (st', res, calls)" and "calls \<noteq> []"
  obtains e where "js_get req ''email'' = JStr e"
    and "truthy (js_get req ''name'')" and "truthy (js_get req ''password'')"
    and "\<not> userExists st e" and "validateEmail e"
    and "register_checked env st (js_get req ''name'') e (js_get req ''password'') = (st', res, calls)"
proof -
  from assms have nn: "\<not> nullish req" by (auto simp: register_def)
  from assms nn have t: "truthy (js_get req ''name'')" "truthy (js_get req ''email'')"
      "truthy (js_get req ''password'')"
    by (auto simp: register_def Let_def split: if_splits)
  from assms nn t obtain e where e: "js_get req ''email'' = JStr e"
    by (cases "js_get req ''email''") (auto simp: register_def Let_def)
  from assms nn t e have "\<not> userExists st e" "validateEmail e"
      "register_checked env st (js_get req ''name'') e (js_get req ''password'') = (st', res, calls)"
    by (auto simp: register_def Let_def split: if_splits)
  with e t show thesis using that by blast
qed

lemma register_issued_result:
  assumes "register_issued env st name e password did credential = (st', res, calls)"
  shows "status res = 200"
    and "js_get (body res) ''success'' = JBool True"
    and "js_get (body res) ''did'' = did"
    and "js_get (body res) ''credential'' = credential"
    and "js_get (body res) ''zkpData'' = extractZkpDataFromCredential credential did"
    and "ISSUER_DID st' = ISSUER_DID st"
    and "\<exists>user. usersStore st' = (usersStore st)(toLowerCase e \<mapsto> user)
           \<and> js_get user ''did'' = did \<and> js_get user ''credential'' = credential
           \<and> js_get user ''password'' = JStr (hashData env password)"
    and "calls = snd (verifyCredentialWithIssuer (to_string env) (axios_get_credential_verify env) (now_iso env)
             credential did (url_value env))"
  using assms
  by (auto simp: register_issued_def Let_def saveUser_def update_conv' split: prod.splits)

lemma register_checked_cases:
  assumes "register_checked env st name e password = (st', res, calls)"
  obtains (no_identity) error where
      "createDIDInIssuer env (register_userData name e) = (Inl error, [PostIdentities identityRequest])"
      "st' = st" "res = error500 ''Error al crear cuenta'' error"
      "calls = [PostIdentities identityRequest]"
  | (no_credential) idresp error calls2 where
      "createDIDInIssuer env (register_userData name e) = (Inr idresp, [PostIdentities identityRequest])"
      "createCredentialInIssuer env st (js_get idresp ''identifier'') (register_userData name e)
         = (Inl error, st', calls2)"
      "res = error500 ''Error al crear cuenta'' error"
      "calls = PostIdentities identityRequest # calls2"
  | (issued) idresp credential st1 calls2 calls3 where
      "createDIDInIssuer env (register_userData name e) = (Inr idresp, [PostIdentities identityRequest])"
      "createCredentialInIssuer env st (js_get idresp ''identifier'') (register_userData name e)
         = (Inr credential, st1, calls2)"
      "register_issued env st1 name e password (js_get idresp ''identifier'') credential
         = (st', res, calls3)"
      "calls = PostIdentities identityRequest # calls2 @ calls3"
proof -
  obtain r1 c1 where d: "createDIDInIssuer env (register_userData name e) = (r1, c1)"
    by (cases "createDIDInIssuer env (register_userData name e)") auto
  then have c1: "c1 = [PostIdentities identityRequest]"
    using createDIDInIssuer_calls [of env "register_userData name e"] by simp
  show thesis
  proof (cases r1)
    case (Inl error)
    with assms d c1 show thesis
      by (intro no_identity [of error]) (simp_all add: register_checked_def Let_def)
  next
    case (Inr idresp)
    obtain r2 st1 c2 where c: "createCredentialInIssuer env st (js_get idresp ''identifier'')
        (register_userData name e) = (r2, st1, c2)"
      by (cases "createCredentialInIssuer env st (js_get idresp ''identifier'') (register_userData name e)") auto
    show thesis
    proof (cases r2)
      case e2: (Inl error)
      with assms d c1 Inr c show thesis
        by (intro no_credential [of idresp error c2]) (simp_all add: register_checked_def Let_def)
    next
      case e2: (Inr credential)
      obtain st2 res2 c3 where i: "register_issued env st1 name e password
          (js_get idresp ''identifier'') credential = (st2, res2, c3)"
        by (cases "register_issued env st1 name e password (js_get idresp ''identifier'') credential") auto
      with assms d c1 Inr c e2 show thesis
        by (intro issued [of idresp credential st1 c2 c3]) (simp_all add: register_checked_def Let_def)
    qed
  qed
qed



lemma login_matched:
  assumes "js_get req ''email'' = JStr e" and "e \<noteq> []"
    and "usersStore st (toLowerCase e) = Some user" and "truthy user"
    and "truthy (js_get req ''password'')"
    and "strict_eq (js_get user ''password'') (JStr (hashData env (js_get req ''password'')))"
  shows "login env st req = login_verify env user"
proof -
  from assms(1) have nn: "\<not> nullish req" by (cases req) auto
  from assms(3) have g: "getUser st e = user" by (simp add: getUser_def)
  from nn assms g show ?thesis by (simp add: login_def Let_def)
qed

lemma login_denied_fields:
  "status (login_denied v credential) = 401"
  "js_get (body (login_denied v credential)) ''success'' = JBool False"
  "js_get (body (login_denied v credential)) ''verified'' = JBool False"
  "js_get (body (login_denied v credential)) ''stage'' = js_get v ''stage''"
  by (simp_all add: login_denied_def Let_def split: prod.splits)

lemma ToString_url_value: "\<exists>u. ToString conv (url_value env) = Inr u"
  by (simp add: ToString_def url_value_def split: option.splits)

lemma verify_revoked_record:
  assumes "js_get credential ''id'' = JStr s"
    and "ax d (replace_first ''urn:uuid:'' [] s) = Inr reported"
    and "truthy (js_get reported ''revoked'')"
    and "ToString conv url = Inr u"
  shows "verifyCredentialWithIssuer conv ax stamp credential d url =
     (case validateCredentialStructure credential of
        Invalid e \<Rightarrow> (JObj [(''verified'', JBool False), (''error'', JStr e),
                         (''stage'', JStr ''structure_validation'')], [])
      | Valid \<Rightarrow>
          (case ToString conv d of
             Inl issuerError \<Rightarrow> (connection_failure url d issuerError, [])
           | Inr t \<Rightarrow>
               (JObj [(''verified'', JBool False), (''error'', JStr ''Credencial revocada''),
                      (''stage'', JStr ''revocation_check''), (''details'', reported)],
                [GetCredential d (JStr (replace_first ''urn:uuid:'' [] s))])))"
proof -
  from assms(1) have nn: "\<not> nullish credential" by (cases credential) auto
  from assms(3) have nr: "\<not> nullish reported" by (cases reported) auto
  from nn nr assms show ?thesis
    by (simp add: verifyCredentialWithIssuer_def Let_def bind_def check_issuer_record_def
        split: validation.splits sum.splits)
qed

lemma login_verify_revoked:
  assumes "js_get (js_get user ''credential'') ''id'' = JStr s"
    and "axios_get_credential_verify env
           (js_or (js_get (js_get user ''credential'') ''issuer'') (js_get user ''did''))
           (replace_first ''urn:uuid:'' [] s) = Inr reported"
    and "truthy (js_get reported ''revoked'')"
  shows "status (fst (login_verify env user)) = 401"
    and "js_get (body (fst (login_verify env user))) ''success'' = JBool False"
    and "validateCredentialStructure (js_get user ''credential'') = Valid
         \<Longrightarrow> ToString (to_string env)
               (js_or (js_get (js_get user ''credential'') ''issuer'') (js_get user ''did'')) = Inr t
         \<Longrightarrow> js_get (body (fst (login_verify env user))) ''verified'' = JBool False
           \<and> js_get (body (fst (login_verify env user))) ''stage'' = JStr ''revocation_check''
           \<and> snd (login_verify env user) =
               [GetCredential (js_or (js_get (js_get user ''credential'') ''issuer'') (js_get user ''did''))
                  (JStr (replace_first ''urn:uuid:'' [] s))]"
    and "validateCredentialStructure (js_get user ''credential'') \<noteq> Valid
         \<Longrightarrow> snd (login_verify env user) = []
           \<and> (if truthy (js_get (js_get user ''credential'') ''credentialSubject'')
               then js_get (body (fst (login_verify env user))) ''stage'' = JStr ''structure_validation''
               else js_get (body (fst (login_verify env user))) ''stage'' = JUndefined
                 \<and> js_get (body (fst (login_verify env user))) ''reason''
                     = JStr ''INVALID_CREDENTIAL_STRUCTURE'')"
    and "validateCredentialStructure (js_get user ''credential'') = Valid
         \<Longrightarrow> ToString (to_string env)
               (js_or (js_get (js_get user ''credential'') ''issuer'') (js_get user ''did'')) = Inl err
         \<Longrightarrow> snd (login_verify env user) = []
           \<and> js_get (body (fst (login_verify env user))) ''stage'' = JStr ''issuer_node_connection''"
proof -
  from assms(1) have tc: "truthy (js_get user ''credential'')"
    by (cases "js_get user ''credential''") auto
  obtain u where u: "ToString (to_string env) (url_value env) = Inr u"
    using ToString_url_value by blast
  note v = verify_revoked_record [where ax = "axios_get_credential_verify env"
      and conv = "to_string env" and stamp = "now_iso env", OF assms(1,2,3) u]
  show "status (fst (login_verify env user)) = 401"
    by (simp add: login_verify_def Let_def v login_denied_fields connection_failure_fields
        split: validation.splits sum.splits)
  show "js_get (body (fst (login_verify env user))) ''success'' = JBool False"
    by (simp add: login_verify_def Let_def v login_denied_fields connection_failure_fields
        split: validation.splits sum.splits)
  show "js_get (body (fst (login_verify env user))) ''verified'' = JBool False
           \<and> js_get (body (fst (login_verify env user))) ''stage'' = JStr ''revocation_check''
           \<and> snd (login_verify env user) =
               [GetCredential (js_or (js_get (js_get user ''credential'') ''issuer'') (js_get user ''did''))
                  (JStr (replace_first ''urn:uuid:'' [] s))]"
    if "validateCredentialStructure (js_get user ''credential'') = Valid"
      and "ToString (to_string env)
               (js_or (js_get (js_get user ''credential'') ''issuer'') (js_get user ''did'')) = Inr t"
  proof -
    from that(1) have "truthy (js_get user ''credential'')"
      "truthy (js_get (js_get user ''credential'') ''credentialSubject'')"
      by (auto simp: validateCredentialStructure_def requiredFields_def
          split: if_splits option.splits)
    with that show ?thesis
      by (simp add: login_verify_def Let_def v login_denied_fields)
  qed
  show "snd (login_verify env user) = []
           \<and> (if truthy (js_get (js_get user ''credential'') ''credentialSubject'')
               then js_get (body (fst (login_verify env user))) ''stage'' = JStr ''structure_validation''
               else js_get (body (fst (login_verify env user))) ''stage'' = JUndefined
                 \<and> js_get (body (fst (login_verify env user))) ''reason''
                     = JStr ''INVALID_CREDENTIAL_STRUCTURE'')"
    if "validateCredentialStructure (js_get user ''credential'') \<noteq> Valid"
    using that tc
    by (simp add: login_verify_def Let_def v login_denied_fields split: validation.splits)
  show "snd (login_verify env user) = []
           \<and> js_get (body (fst (login_verify env user))) ''stage'' = JStr ''issuer_node_connection''"
    if "validateCredentialStructure (js_get user ''credential'') = Valid"
      and "ToString (to_string env)
               (js_or (js_get (js_get user ''credential'') ''issuer'') (js_get user ''did'')) = Inl err"
  proof -
    from that(1) have "truthy (js_get (js_get user ''credential'') ''credentialSubject'')"
      by (auto simp: validateCredentialStructure_def requiredFields_def
          split: if_splits option.splits)
    with that tc show ?thesis
      by (simp add: login_verify_def Let_def v login_denied_fields connection_failure_fields)
  qed
qed




















subsection \<open>A failed look-up is terminal\<close>

text \<open>
  C1.  When the verifier's look-up at the Issuer Node was sent and failed, the verdict is
  negative with stage \<open>issuer_node_connection\<close>.  A positive verdict is only ever returned
  after a look-up that was sent and answered, with a record that is not revoked and agrees
  with the credential: there is no local path to \<open>verified = true\<close>.
\<close>

theorem verify_issuer_failure_is_terminal:
  assumes "verifyCredentialWithIssuer conv axios_get stamp credential issuerDID issuerNodeUrl
             = (verdict, calls)"
  shows "(\<forall>cid err. GetCredential issuerDID (JStr cid) \<in> set calls
                     \<and> axios_get issuerDID cid = Inl err
            \<longrightarrow> js_get verdict ''verified'' = JBool False
              \<and> js_get verdict ''stage'' = JStr ''issuer_node_connection'')
       \<and> (js_get verdict ''verified'' = JBool True
            \<longrightarrow> (\<exists>cid data. calls = [GetCredential issuerDID (JStr cid)]
                   \<and> axios_get issuerDID cid = Inr data
                   \<and> \<not> truthy (js_get data ''revoked'')
                   \<and> compareCredentialData credential (js_get data ''vc'') = Valid))"
  using assms
  by (auto simp: verifyCredentialWithIssuer_def bind_def Let_def connection_failure_fields
      split: if_splits validation.splits jsval.splits sum.splits
      dest: check_issuer_record_verified)

theorem verify_issuer_failure_is_terminal_witness:
  "GetCredential (JStr ''did:polygonid:polygon:amoy:issuer'') (JStr ''c1'')
      \<in> set (snd (verifyCredentialWithIssuer no_text issuer_down ''2025-01-02T00:00:00Z'' sample_credential
                 (JStr ''did:polygonid:polygon:amoy:issuer'') (JStr ''http://localhost:3001'')))
   \<and> issuer_down (JStr ''did:polygonid:polygon:amoy:issuer'') ''c1'' = Inl timeout_error
   \<and> js_get (fst (verifyCredentialWithIssuer no_text issuer_down ''2025-01-02T00:00:00Z'' sample_credential
                 (JStr ''did:polygonid:polygon:amoy:issuer'') (JStr ''http://localhost:3001''))) ''verified'' = JBool False
   \<and> js_get (fst (verifyCredentialWithIssuer no_text issuer_down ''2025-01-02T00:00:00Z'' sample_credential
                 (JStr ''did:polygonid:polygon:amoy:issuer'') (JStr ''http://localhost:3001''))) ''stage'' = JStr ''issuer_node_connection''"
proof -
  have sent: "GetCredential (JStr ''did:polygonid:polygon:amoy:issuer'') (JStr ''c1'')
      \<in> set (snd (verifyCredentialWithIssuer no_text issuer_down ''2025-01-02T00:00:00Z'' sample_credential
                 (JStr ''did:polygonid:polygon:amoy:issuer'') (JStr ''http://localhost:3001'')))"
    by code_simp
  have down: "issuer_down (JStr ''did:polygonid:polygon:amoy:issuer'') ''c1'' = Inl timeout_error"
    by (simp add: issuer_down_def)
  from verify_issuer_failure_is_terminal [OF prod.collapse [symmetric]] sent down
  show ?thesis by blast
qed

subsection \<open>A revoked credential denies login\<close>

text \<open>
  C2, as amended.  Take a stored user, a login with the matching password, and an Issuer
  Node whose record for the stored credential (looked up under the credential's \<open>id\<close>
  without its \<open>urn:uuid:\<close> prefix, at the credential's issuer or else the user's DID)
  has a truthy \<open>revoked\<close>.  The login is denied with 401.  When the stored credential
  passes the structure check of the verifier and the issuer's identifier can be written
  into the address of the look-up, the look-up is sent and the denial carries the stage
  \<open>revocation_check\<close>.  Otherwise the login is denied before any look-up: a credential
  without \<open>credentialSubject\<close> with the reason \<open>INVALID_CREDENTIAL_STRUCTURE\<close> and no
  stage, any other credential that fails the structure check at stage
  \<open>structure_validation\<close>, and an identifier whose conversion throws at stage
  \<open>issuer_node_connection\<close>.
\<close>

theorem login_revoked_is_denied:
  assumes "js_get req ''email'' = JStr e" and "e \<noteq> []"
    and "usersStore st (toLowerCase e) = Some user" and "truthy user"
    and "truthy (js_get req ''password'')"
    and "strict_eq (js_get user ''password'') (JStr (hashData env (js_get req ''password'')))"
    and "js_get (js_get user ''credential'') ''id'' = JStr s"
    and "axios_get_credential_verify env
           (js_or (js_get (js_get user ''credential'') ''issuer'') (js_get user ''did''))
           (replace_first ''urn:uuid:'' [] s) = Inr reported"
    and "truthy (js_get reported ''revoked'')"
  shows "status (fst (login env st req)) = 401
     \<and> js_get (body (fst (login env st req))) ''success'' = JBool False
     \<and> (validateCredentialStructure (js_get user ''credential'') = Valid
          \<and> (\<exists>t. ToString (to_string env)
                 (js_or (js_get (js_get user ''credential'') ''issuer'') (js_get user ''did'')) = Inr t)
         \<longrightarrow> js_get (body (fst (login env st req))) ''verified'' = JBool False
           \<and> js_get (body (fst (login env st req))) ''stage'' = JStr ''revocation_check''
           \<and> snd (login env st req) =
               [GetCredential (js_or (js_get (js_get user ''credential'') ''issuer'') (js_get user ''did''))
                  (JStr (replace_first ''urn:uuid:'' [] s))])
     \<and> (validateCredentialStructure (js_get user ''credential'') = Valid
          \<and> (\<exists>err. ToString (to_string env)
                 (js_or (js_get (js_get user ''credential'') ''issuer'') (js_get user ''did'')) = Inl err)
         \<longrightarrow> snd (login env st req) = []
           \<and> js_get (body (fst (login env st req))) ''stage'' = JStr ''issuer_node_connection'')
     \<and> (validateCredentialStructure (js_get user ''credential'') \<noteq> Valid
         \<longrightarrow> snd (login env st req) = []
           \<and> (if truthy (js_get (js_get user ''credential'') ''credentialSubject'')
               then js_get (body (fst (login env st req))) ''stage'' = JStr ''structure_validation''
               else js_get (body (fst (login env st req))) ''stage'' = JUndefined
                 \<and> js_get (body (fst (login env st req))) ''reason''
                     = JStr ''INVALID_CREDENTIAL_STRUCTURE''))"
proof -
  have l: "login env st req = login_verify env user"
    using assms(1-6) by (rule login_matched)
  note r = login_verify_revoked [OF assms(7,8,9)]
  show ?thesis
    unfolding l using r by blast
qed

theorem login_revoked_is_denied_witness:
  "js_get ana_request ''email'' = JStr ''ana@example.com''
   \<and> usersStore (state_with (ana_user sample_credential)) (toLowerCase ''ana@example.com'')
       = Some (ana_user sample_credential)
   \<and> strict_eq (js_get (ana_user sample_credential) ''password'')
        (JStr (hashData revoked_env (js_get ana_request ''password'')))
   \<and> validateCredentialStructure (js_get (ana_user sample_credential) ''credential'') = Valid
   \<and> js_get (js_get (ana_user sample_credential) ''credential'') ''id'' = JStr ''urn:uuid:c1''
   \<and> axios_get_credential_verify revoked_env (JStr issuer_did) ''c1'' = Inr revoked_record
   \<and> truthy (js_get revoked_record ''revoked'')
   \<and> status (fst (login revoked_env (state_with (ana_user sample_credential)) ana_request)) = 401
   \<and> js_get (body (fst (login revoked_env (state_with (ana_user sample_credential)) ana_request)))
        ''success'' = JBool False
   \<and> js_get (body (fst (login revoked_env (state_with (ana_user sample_credential)) ana_request)))
        ''stage'' = JStr ''revocation_check''
   \<and> snd (login revoked_env (state_with (ana_user sample_credential)) ana_request)
       = [GetCredential (JStr issuer_did) (JStr ''c1'')]
   \<and> usersStore (state_with (ana_user untagged_credential)) (toLowerCase ''ana@example.com'')
       = Some (ana_user untagged_credential)
   \<and> validateCredentialStructure (js_get (ana_user untagged_credential) ''credential'') \<noteq> Valid
   \<and> status (fst (login revoked_env (state_with (ana_user untagged_credential)) ana_request)) = 401
   \<and> js_get (body (fst (login revoked_env (state_with (ana_user untagged_credential)) ana_request)))
        ''stage'' = JStr ''structure_validation''
   \<and> snd (login revoked_env (state_with (ana_user untagged_credential)) ana_request) = []"
proof -
  have email: "js_get ana_request ''email'' = JStr ''ana@example.com''"
    by (simp add: ana_request_def)
  have given: "truthy (js_get ana_request ''password'')" by (simp add: ana_request_def)
  have answer: "axios_get_credential_verify revoked_env (JStr issuer_did) ''c1'' = Inr revoked_record"
    by (simp add: revoked_env_def)
  have revoked: "truthy (js_get revoked_record ''revoked'')"
    by (simp add: revoked_record_def)
  have conv: "ToString (to_string revoked_env) (JStr issuer_did) = Inr issuer_did"
    by (simp add: ToString_def)
  have cid: "replace_first ''urn:uuid:'' [] ''urn:uuid:c1'' = ''c1''"
    by code_simp
  have stored: "usersStore (state_with (ana_user sample_credential)) (toLowerCase ''ana@example.com'')
       = Some (ana_user sample_credential)"
    by code_simp
  have user: "truthy (ana_user sample_credential)" by (simp add: ana_user_def)
  have pw: "strict_eq (js_get (ana_user sample_credential) ''password'')
        (JStr (hashData revoked_env (js_get ana_request ''password'')))"
    by code_simp
  have valid: "validateCredentialStructure (js_get (ana_user sample_credential) ''credential'') = Valid"
    by code_simp
  have ident: "js_get (js_get (ana_user sample_credential) ''credential'') ''id'' = JStr ''urn:uuid:c1''"
    by code_simp
  have issuer: "js_or (js_get (js_get (ana_user sample_credential) ''credential'') ''issuer'')
            (js_get (ana_user sample_credential) ''did'') = JStr issuer_did"
    by code_simp
  have stored': "usersStore (state_with (ana_user untagged_credential)) (toLowerCase ''ana@example.com'')
       = Some (ana_user untagged_credential)"
    by code_simp
  have user': "truthy (ana_user untagged_credential)" by (simp add: ana_user_def)
  have pw': "strict_eq (js_get (ana_user untagged_credential) ''password'')
        (JStr (hashData revoked_env (js_get ana_request ''password'')))"
    by code_simp
  have invalid: "validateCredentialStructure (js_get (ana_user untagged_credential) ''credential'') \<noteq> Valid"
    by code_simp
  have ident': "js_get (js_get (ana_user untagged_credential) ''credential'') ''id'' = JStr ''urn:uuid:c1''"
    by code_simp
  have issuer': "js_or (js_get (js_get (ana_user untagged_credential) ''credential'') ''issuer'')
            (js_get (ana_user untagged_credential) ''did'') = JStr issuer_did"
    by code_simp
  have subject: "truthy (js_get (js_get (ana_user untagged_credential) ''credential'') ''credentialSubject'')"
    by code_simp
  from login_revoked_is_denied [OF email _ stored user given pw ident, of revoked_record]
    answer revoked valid issuer cid conv
  have one: "status (fst (login revoked_env (state_with (ana_user sample_credential)) ana_request)) = 401
   \<and> js_get (body (fst (login revoked_env (state_with (ana_user sample_credential)) ana_request)))
        ''success'' = JBool False
   \<and> js_get (body (fst (login revoked_env (state_with (ana_user sample_credential)) ana_request)))
        ''stage'' = JStr ''revocation_check''
   \<and> snd (login revoked_env (state_with (ana_user sample_credential)) ana_request)
       = [GetCredential (JStr issuer_did) (JStr ''c1'')]"
    by simp
  from login_revoked_is_denied [OF email _ stored' user' given pw' ident', of revoked_record]
    answer revoked invalid issuer' cid subject
  have two: "status (fst (login revoked_env (state_with (ana_user untagged_credential)) ana_request)) = 401
   \<and> js_get (body (fst (login revoked_env (state_with (ana_user untagged_credential)) ana_request)))
        ''stage'' = JStr ''structure_validation''
   \<and> snd (login revoked_env (state_with (ana_user untagged_credential)) ana_request) = []"
    by simp
  from one two email stored pw valid ident answer revoked stored' invalid
  show ?thesis by blast
qed

text \<open>
  C2 as stated fails: a registration whose re-fetch failed stores the answer of the
  creation request, \<open>{id}\<close>, as the credential.  When the Issuer Node reports that
  credential as revoked, the login with the matching password is denied by the guard on
  the stored credential, with a reason and without a stage, and no look-up is sent.
\<close>

theorem login_revoked_reference_counterexample:
  "map_option (\<lambda>user. js_get user ''credential'')
      (usersStore (fst (register fetch_down_env empty_state ana_request)) ''ana@example.com'')
    = Some (JObj [(''id'', JStr ''c1'')])
   \<and> map_option (\<lambda>user. strict_eq (js_get user ''password'')
           (JStr (hashData revoked_env (js_get ana_request ''password''))))
      (usersStore (fst (register fetch_down_env empty_state ana_request)) ''ana@example.com'')
    = Some True
   \<and> axios_get_credential_verify revoked_env (JStr ana_did) ''c1'' = Inr revoked_record
   \<and> js_get revoked_record ''revoked'' = JBool True
   \<and> status (fst (login revoked_env (fst (register fetch_down_env empty_state ana_request))
        ana_request)) = 401
   \<and> js_get (body (fst (login revoked_env (fst (register fetch_down_env empty_state ana_request))
        ana_request))) ''reason'' = JStr ''INVALID_CREDENTIAL_STRUCTURE''
   \<and> js_get (body (fst (login revoked_env (fst (register fetch_down_env empty_state ana_request))
        ana_request))) ''stage'' = JUndefined
   \<and> snd (login revoked_env (fst (register fetch_down_env empty_state ana_request)) ana_request) = []"
  by code_simp

subsection \<open>Login without a stored credential\<close>

text \<open>
  C3, as amended.  For a stored user without a credential, a login that names the user
  sends no request to the Issuer Node and is never granted, whatever the password; with
  the matching password the denial is 401 with reason \<open>NO_CREDENTIAL\<close>, with another
  password it is the denial of the password check (401, with the message that the
  password is wrong), which carries no reason.
\<close>

theorem login_without_credential:
  assumes "js_get req ''email'' = JStr e" and "e \<noteq> []"
    and "usersStore st (toLowerCase e) = Some user" and "truthy user"
    and "\<not> truthy (js_get user ''credential'')"
  shows "snd (login env st req) = []
     \<and> status (fst (login env st req)) \<noteq> 200
     \<and> js_get (body (fst (login env st req))) ''success'' = JBool False
     \<and> (truthy (js_get req ''password'')
          \<and> strict_eq (js_get user ''password'') (JStr (hashData env (js_get req ''password'')))
         \<longrightarrow> status (fst (login env st req)) = 401
           \<and> js_get (body (fst (login env st req))) ''reason'' = JStr ''NO_CREDENTIAL'')
     \<and> (truthy (js_get req ''password'')
          \<and> \<not> strict_eq (js_get user ''password'') (JStr (hashData env (js_get req ''password'')))
         \<longrightarrow> status (fst (login env st req)) = 401
           \<and> js_get (body (fst (login env st req))) ''reason'' = JUndefined
           \<and> js_get (body (fst (login env st req))) ''error''
               = JStr (''Contrase'' @ [CHR 0xC3, CHR 0xB1] @ ''a incorrecta''))"
proof -
  from assms(1) have nn: "\<not> nullish req" by (cases req) auto
  from assms(3) have g: "getUser st e = user" by (simp add: getUser_def)
  from assms(5) have lv: "login_verify env user =
     (\<lparr>status = 401,
          body = JObj [
            (''success'', JBool False),
            (''error'', JStr (''Tu cuenta no tiene una credencial ZKP v'' @ [CHR 0xC3, CHR 0xA1] @ ''lida registrada. La credencial es necesaria para autenticarte. Contacta al administrador del sistema.'')),
            (''reason'', JStr ''NO_CREDENTIAL''),
            (''requiresCredential'', JBool True)]\<rparr>, [])"
    by (simp add: login_verify_def)
  from nn assms(1,2,4) g lv show ?thesis
    by (simp add: login_def Let_def)
qed

theorem login_without_credential_witness:
  "js_get ana_request ''email'' = JStr ''ana@example.com''
   \<and> usersStore (state_with (ana_user JUndefined)) (toLowerCase ''ana@example.com'')
       = Some (ana_user JUndefined)
   \<and> \<not> truthy (js_get (ana_user JUndefined) ''credential'')
   \<and> snd (login sample_env (state_with (ana_user JUndefined)) ana_request) = []
   \<and> status (fst (login sample_env (state_with (ana_user JUndefined)) ana_request)) = 401
   \<and> js_get (body (fst (login sample_env (state_with (ana_user JUndefined)) ana_request))) ''reason''
       = JStr ''NO_CREDENTIAL''"
proof -
  have email: "js_get ana_request ''email'' = JStr ''ana@example.com''"
    by (simp add: ana_request_def)
  have stored: "usersStore (state_with (ana_user JUndefined)) (toLowerCase ''ana@example.com'')
       = Some (ana_user JUndefined)"
    by code_simp
  have user: "truthy (ana_user JUndefined)" by (simp add: ana_user_def)
  have none: "\<not> truthy (js_get (ana_user JUndefined) ''credential'')"
    by (simp add: ana_user_def)
  have pw: "truthy (js_get ana_request ''password'')
     \<and> strict_eq (js_get (ana_user JUndefined) ''password'')
          (JStr (hashData sample_env (js_get ana_request ''password'')))"
    by code_simp
  from login_without_credential [OF email _ stored user none, of sample_env] pw email stored none
  show ?thesis by simp
qed

text \<open>
  C3 as stated fails: for the same user, a login with a wrong password is denied by the
  password check, and that denial carries no reason.
\<close>

theorem login_wrong_password_counterexample:
  "usersStore (state_with (ana_user JUndefined)) (toLowerCase ''ana@example.com'')
       = Some (ana_user JUndefined)
   \<and> js_get (ana_user JUndefined) ''credential'' = JUndefined
   \<and> status (fst (login sample_env (state_with (ana_user JUndefined)) wrong_password_request)) = 401
   \<and> js_get (body (fst (login sample_env (state_with (ana_user JUndefined)) wrong_password_request)))
        ''error'' = JStr (''Contrase'' @ [CHR 0xC3, CHR 0xB1] @ ''a incorrecta'')
   \<and> js_get (body (fst (login sample_env (state_with (ana_user JUndefined)) wrong_password_request)))
        ''reason'' = JUndefined"
  by code_simp

subsection \<open>A failed identity request stores nothing\<close>

text \<open>
  C4.  In a registration that sent the request for a new identity and got an error back,
  the state is left as it was (no user is stored and nothing else is requested), and the
  route answers 500 with the classified cause inside its \<open>details\<close>: for an error with
  the code \<open>ECONNABORTED\<close> the sentence about the time-out; else for the code
  \<open>ECONNREFUSED\<close> the sentence that the Issuer Node is not running, with its address;
  else for an answer with status 401 the sentence about the invalid authentication; else
  for an answer with status 500 the sentence about the internal error; and for any other
  error its own message.
\<close>

theorem register_identity_failure_stores_nothing:
  assumes "register env st req = (st', res, calls)"
    and "PostIdentities identityRequest \<in> set calls"
    and "axios_post_identities env identityRequest = Inl error"
  shows "st' = st \<and> calls = [PostIdentities identityRequest] \<and> status res = 500
     \<and> body res = JObj [
          (''success'', JBool False),
          (''error'', JStr ''Error al crear cuenta''),
          (''details'', JStr (''No se pudo crear el DID (Identidad Descentralizada). ''
             @ (if code error = JStr ''ECONNABORTED'' then
                  ''Tiempo de espera agotado. El Issuer Node est'' @ [CHR 0xC3, CHR 0xA1] @ '' tardando demasiado en responder.''
                else if code error = JStr ''ECONNREFUSED'' then
                  ''El Issuer Node no est'' @ [CHR 0xC3, CHR 0xA1] @ '' en ejecuci'' @ [CHR 0xC3, CHR 0xB3] @ ''n o no es accesible en ''
                    @ (case ISSUER_NODE_URL env of None \<Rightarrow> ''undefined'' | Some u \<Rightarrow> u)
                else if map_option fst (response error) = Some (JNum 401) then
                  ''Credenciales de autenticaci'' @ [CHR 0xC3, CHR 0xB3] @ ''n inv'' @ [CHR 0xC3, CHR 0xA1] @ ''lidas para el Issuer Node.''
                else if map_option fst (response error) = Some (JNum 500) then
                  ''El Issuer Node encontr'' @ [CHR 0xC3, CHR 0xB3] @ '' un error interno al procesar la solicitud.''
                else message error)
             @ ''. Sin un DID v'' @ [CHR 0xC3, CHR 0xA1] @ ''lido del Issuer Node no es posible crear credenciales ZKP con firma criptogr'' @ [CHR 0xC3, CHR 0xA1] @ ''fica real. Contacta al administrador del sistema.''))]"
proof -
  from assms(2) have "calls \<noteq> []" by auto
  with assms(1) obtain e where
    chk: "register_checked env st (js_get req ''name'') e (js_get req ''password'') = (st', res, calls)"
    by (rule register_sent)
  note f = createDIDInIssuer_failure [OF assms(3), of "register_userData (js_get req ''name'') e"]
  from chk have r: "st' = st \<and> calls = [PostIdentities identityRequest] \<and> status res = 500
     \<and> body res = JObj [
          (''success'', JBool False),
          (''error'', JStr ''Error al crear cuenta''),
          (''details'', JStr (''No se pudo crear el DID (Identidad Descentralizada). ''
             @ did_errorDetail env error
             @ ''. Sin un DID v'' @ [CHR 0xC3, CHR 0xA1] @ ''lido del Issuer Node no es posible crear credenciales ZKP con firma criptogr'' @ [CHR 0xC3, CHR 0xA1] @ ''fica real. Contacta al administrador del sistema.''))]"
  proof (cases rule: register_checked_cases)
    case (no_identity error')
    with f show ?thesis by (simp add: error500_def new_Error_def)
  next
    case (no_credential idresp error' calls2)
    with f show ?thesis by simp
  next
    case (issued idresp credential st1 calls2 calls3)
    with f show ?thesis by simp
  qed
  then show ?thesis unfolding did_errorDetail_classes .
qed

theorem register_identity_failure_stores_nothing_witness:
  "PostIdentities identityRequest \<in> set (snd (snd (register refused_env empty_state ana_request)))
   \<and> axios_post_identities refused_env identityRequest = Inl refused_error
   \<and> fst (register refused_env empty_state ana_request) = empty_state
   \<and> usersStore (fst (register refused_env empty_state ana_request)) ''ana@example.com'' = None
   \<and> status (fst (snd (register refused_env empty_state ana_request))) = 500
   \<and> js_get (body (fst (snd (register refused_env empty_state ana_request)))) ''details'' =
       JStr (''No se pudo crear el DID (Identidad Descentralizada). El Issuer Node no est''
         @ [CHR 0xC3, CHR 0xA1] @ '' en ejecuci'' @ [CHR 0xC3, CHR 0xB3]
         @ ''n o no es accesible en http://localhost:3001. Sin un DID v'' @ [CHR 0xC3, CHR 0xA1]
         @ ''lido del Issuer Node no es posible crear credenciales ZKP con firma criptogr''
         @ [CHR 0xC3, CHR 0xA1] @ ''fica real. Contacta al administrador del sistema.'')
   \<and> PostIdentities identityRequest \<in> set (snd (snd (register timeout_env empty_state ana_request)))
   \<and> axios_post_identities timeout_env identityRequest = Inl timeout_error
   \<and> fst (register timeout_env empty_state ana_request) = empty_state
   \<and> js_get (body (fst (snd (register timeout_env empty_state ana_request)))) ''details'' =
       JStr (''No se pudo crear el DID (Identidad Descentralizada). Tiempo de espera agotado. El Issuer Node est''
         @ [CHR 0xC3, CHR 0xA1] @ '' tardando demasiado en responder.. Sin un DID v'' @ [CHR 0xC3, CHR 0xA1]
         @ ''lido del Issuer Node no es posible crear credenciales ZKP con firma criptogr''
         @ [CHR 0xC3, CHR 0xA1] @ ''fica real. Contacta al administrador del sistema.'')"
proof -
  have sent: "PostIdentities identityRequest
      \<in> set (snd (snd (register refused_env empty_state ana_request)))"
    by code_simp
  have down: "axios_post_identities refused_env identityRequest = Inl refused_error"
    by (simp add: refused_env_def)
  have run: "register refused_env empty_state ana_request =
      (fst (register refused_env empty_state ana_request),
       fst (snd (register refused_env empty_state ana_request)),
       snd (snd (register refused_env empty_state ana_request)))"
    by simp
  have url: "ISSUER_NODE_URL refused_env = Some ''http://localhost:3001''"
    by (simp add: refused_env_def sample_env_def)
  have refused: "code refused_error = JStr ''ECONNREFUSED''"
    by (simp add: refused_error_def)
  have sent': "PostIdentities identityRequest
      \<in> set (snd (snd (register timeout_env empty_state ana_request)))"
    by code_simp
  have down': "axios_post_identities timeout_env identityRequest = Inl timeout_error"
    by (simp add: timeout_env_def)
  have run': "register timeout_env empty_state ana_request =
      (fst (register timeout_env empty_state ana_request),
       fst (snd (register timeout_env empty_state ana_request)),
       snd (snd (register timeout_env empty_state ana_request)))"
    by simp
  have aborted: "code timeout_error = JStr ''ECONNABORTED''"
    by (simp add: timeout_error_def)
  from register_identity_failure_stores_nothing [OF run sent down]
       register_identity_failure_stores_nothing [OF run' sent' down']
       sent down url refused sent' down' aborted
  show ?thesis by (simp add: empty_state_def)
qed

subsection \<open>What the answers show of proofs and passwords\<close>




subsection \<open>What a registration stores\<close>




subsection \<open>Registration survives a failed publication\<close>

text \<open>
  C7.  In a registration that sent the publish request and got an error back, issuance
  still completes: \<open>createCredentialInIssuer\<close> returns a credential, the route answers
  200 with it and stores it.  The credential is whatever the re-fetch (or its fallback)
  yields; nothing requires it to carry a proof.
\<close>

theorem register_survives_publish_failure:
  assumes "register env st req = (st', res, calls)"
    and "PostPublish issuerDID \<in> set calls"
    and "axios_post_publish env issuerDID = Inl publishError"
  shows "status res = 200 \<and> js_get (body res) ''success'' = JBool True
     \<and> (\<exists>e did data st1 calls2 user.
           js_get req ''email'' = JStr e
         \<and> axios_post_credentials env issuerDID
              (credentialRequest_of env did (register_userData (js_get req ''name'') e)) = Inr data
         \<and> createCredentialInIssuer env st did (register_userData (js_get req ''name'') e)
              = (Inr (fst (fetch_complete env issuerDID (js_get data ''id'') data)), st1, calls2)
         \<and> js_get (body res) ''credential'' = fst (fetch_complete env issuerDID (js_get data ''id'') data)
         \<and> js_get (body res) ''zkpData'' =
              extractZkpDataFromCredential (fst (fetch_complete env issuerDID (js_get data ''id'') data)) did
         \<and> usersStore st' (toLowerCase e) = Some user
         \<and> js_get user ''credential'' = fst (fetch_complete env issuerDID (js_get data ''id'') data))"
proof -
  from assms(2) have "calls \<noteq> []" by auto
  with assms(1) obtain e where e: "js_get req ''email'' = JStr e" and
    chk: "register_checked env st (js_get req ''name'') e (js_get req ''password'') = (st', res, calls)"
    by (rule register_sent)
  from chk show ?thesis
  proof (cases rule: register_checked_cases)
    case (no_identity error)
    with assms(2) show ?thesis by simp
  next
    case (no_credential idresp error calls2)
    from no_credential(2) have "\<forall>i. PostPublish i \<notin> set calls2"
      by (cases rule: createCredentialInIssuer_cases) simp_all
    with no_credential(4) assms(2) show ?thesis by simp
  next
    case (issued idresp credential st1 calls2 calls3)
    note r = register_issued_result [OF issued(3)]
    from r(8) have c3: "calls3 = [] \<or> (\<exists>cid. calls3 = [GetCredential (js_get idresp ''identifier'') (JStr cid)])"
      using verify_calls [OF prod.collapse [symmetric], of "to_string env"
          "axios_get_credential_verify env" "now_iso env" credential
          "js_get idresp ''identifier''" "url_value env"] by simp
    from r(7) obtain user where user: "usersStore st' = (usersStore st1)(toLowerCase e \<mapsto> user)"
      "js_get user ''credential'' = credential"
      by blast
    from issued(2) show ?thesis
    proof (cases rule: createCredentialInIssuer_cases)
      case (failed error)
      then show ?thesis by simp
    next
      case inner: (issued issuerDID' data pre)
      from assms(2) issued(4) inner(6,7) c3
        fetch_complete_calls [of env issuerDID' "js_get data ''id''" data]
      have same: "issuerDID' = issuerDID" by auto
      from inner(1) issued(2) have cc: "createCredentialInIssuer env st (js_get idresp ''identifier'')
         (register_userData (js_get req ''name'') e)
         = (Inr (fst (fetch_complete env issuerDID' (js_get data ''id'') data)), st1, calls2)" by simp
      from r(1,2,4,5) e inner(1,5) same user cc show ?thesis
        by (intro conjI exI [of _ e] exI [of _ "js_get idresp ''identifier''"] exI [of _ data]
              exI [of _ st1] exI [of _ calls2] exI [of _ user]) simp_all
    qed
  qed
qed

theorem register_survives_publish_failure_witness:
  "PostPublish (JStr issuer_did) \<in> set (snd (snd (register publish_down_env empty_state ana_request)))
   \<and> axios_post_publish publish_down_env (JStr issuer_did) = Inl timeout_error
   \<and> status (fst (snd (register publish_down_env empty_state ana_request))) = 200
   \<and> js_get (body (fst (snd (register publish_down_env empty_state ana_request)))) ''success'' = JBool True
   \<and> js_get (body (fst (snd (register publish_down_env empty_state ana_request)))) ''credential''
       = unpublished_credential
   \<and> js_get unpublished_credential ''proof'' = JUndefined
   \<and> js_get (js_get (body (fst (snd (register publish_down_env empty_state ana_request)))) ''zkpData'')
        ''state'' = JStr ''no-proof''"
proof -
  have sent: "PostPublish (JStr issuer_did)
      \<in> set (snd (snd (register publish_down_env empty_state ana_request)))"
    by code_simp
  have down: "axios_post_publish publish_down_env (JStr issuer_did) = Inl timeout_error"
    by (simp add: publish_down_env_def)
  have run: "register publish_down_env empty_state ana_request =
      (fst (register publish_down_env empty_state ana_request),
       fst (snd (register publish_down_env empty_state ana_request)),
       snd (snd (register publish_down_env empty_state ana_request)))"
    by simp
  have absent: "js_get (body (fst (snd (register publish_down_env empty_state ana_request)))) ''credential''
       = unpublished_credential
   \<and> js_get unpublished_credential ''proof'' = JUndefined
   \<and> js_get (js_get (body (fst (snd (register publish_down_env empty_state ana_request)))) ''zkpData'')
        ''state'' = JStr ''no-proof''"
    by code_simp
  from register_survives_publish_failure [OF run sent down]
  have "status (fst (snd (register publish_down_env empty_state ana_request))) = 200
   \<and> js_get (body (fst (snd (register publish_down_env empty_state ana_request)))) ''success'' = JBool True"
    by blast
  with sent down absent show ?thesis by blast
qed

subsection \<open>The type tag is required\<close>

text \<open>
  C8.  A credential (any value on which a property can be read) whose \<open>type\<close> is not an
  array containing \<open>VerifiableCredential\<close> gets the verdict \<open>verified = false\<close> at stage
  \<open>structure_validation\<close>, whatever its other fields and whatever the Issuer Node would
  answer; no request is sent.
\<close>

theorem verify_untagged_fails_structure:
  assumes "\<not> nullish credential"
    and "\<not> (isArray (js_get credential ''type'')
            \<and> includes_str (js_get credential ''type'') ''VerifiableCredential'')"
  shows "\<exists>e. verifyCredentialWithIssuer conv axios_get stamp credential issuerDID issuerNodeUrl =
           (JObj [(''verified'', JBool False), (''error'', JStr e),
                  (''stage'', JStr ''structure_validation'')], [])"
proof -
  from assms(2) obtain e where "validateCredentialStructure credential = Invalid e"
    using type_not_ok_invalid by blast
  with assms(1) show ?thesis
    by (simp add: verifyCredentialWithIssuer_def)
qed

theorem verify_untagged_fails_structure_witness:
  "\<not> nullish untagged_credential
   \<and> \<not> (isArray (js_get untagged_credential ''type'')
          \<and> includes_str (js_get untagged_credential ''type'') ''VerifiableCredential'')
   \<and> (\<exists>e. verifyCredentialWithIssuer no_text issuer_down ''2025-01-02T00:00:00Z'' untagged_credential
           (JStr ''did:polygonid:polygon:amoy:issuer'') (JStr ''http://localhost:3001'') =
           (JObj [(''verified'', JBool False), (''error'', JStr e),
                  (''stage'', JStr ''structure_validation'')], []))"
proof -
  have a: "\<not> nullish untagged_credential" by (simp add: untagged_credential_def)
  have b: "\<not> (isArray (js_get untagged_credential ''type'')
          \<and> includes_str (js_get untagged_credential ''type'') ''VerifiableCredential'')"
    by (simp add: untagged_credential_def)
  from verify_untagged_fails_structure [OF a b] a b show ?thesis by blast
qed

subsection \<open>The combined query is a conjunction\<close>

text \<open>
  C9.  For every conditions object: (1) the query depends on the six recognised keys only,
  so every other key is ignored; (2) a query is returned unless the conversion of a truthy
  \<open>minAge\<close> to a number throws; (3) the query returned is one object whose keys are
  distinct attribute names, each carrying one object with a single operator among
  \<open>$eq\<close>, \<open>$lt\<close>, \<open>$exists\<close>, so the entries can only be read together, as a
  conjunction, and there is no place for a disjunction; (4) each recognised condition
  that is given contributes exactly its own entry.
\<close>

theorem combined_query_is_conjunctive:
  assumes "\<not> nullish conditions"
  shows "(\<forall>conditions'. \<not> nullish conditions'
             \<and> (\<forall>k \<in> set recognised. js_get conditions' k = js_get conditions k)
           \<longrightarrow> createCombinedQuery tn now conditions' = createCombinedQuery tn now conditions)
     \<and> ((truthy (js_get conditions ''minAge'')
            \<longrightarrow> (\<exists>t. minTimestamp tn now (js_get conditions ''minAge'') = Inr t))
          \<longrightarrow> (\<exists>query. createCombinedQuery tn now conditions = Inr query))
     \<and> (\<forall>query. createCombinedQuery tn now conditions = Inr query \<longrightarrow>
           (\<exists>entries. query = JObj entries \<and> distinct (map fst entries)
              \<and> (\<forall>e \<in> set entries. fst e \<in> set attributes
                    \<and> (\<exists>op v. snd e = JObj [(op, v)] \<and> op \<in> set operators)))
         \<and> js_get query ''isVerified'' =
              (if js_get conditions ''isVerified'' \<noteq> JUndefined
               then JObj [(''$eq'', js_get conditions ''isVerified'')] else JUndefined)
         \<and> js_get query ''accountState'' =
              (if truthy (js_get conditions ''accountState'')
               then JObj [(''$eq'', js_get conditions ''accountState'')] else JUndefined)
         \<and> js_get query ''authMethod'' =
              (if truthy (js_get conditions ''authMethod'')
               then JObj [(''$eq'', js_get conditions ''authMethod'')] else JUndefined)
         \<and> js_get query ''email'' =
              (if truthy (js_get conditions ''hasEmail'')
               then JObj [(''$exists'', JBool True)] else JUndefined)
         \<and> js_get query ''walletAddress'' =
              (if truthy (js_get conditions ''hasWallet'')
               then JObj [(''$exists'', JBool True)] else JUndefined)
         \<and> js_get query ''registrationDate'' =
              (if truthy (js_get conditions ''minAge'')
               then (case minTimestamp tn now (js_get conditions ''minAge'') of
                       Inr t \<Rightarrow> JObj [(''$lt'', t)] | Inl e \<Rightarrow> JUndefined)
               else JUndefined))"
proof (intro conjI allI impI)
  fix conditions'
  assume "\<not> nullish conditions'
          \<and> (\<forall>k \<in> set recognised. js_get conditions' k = js_get conditions k)"
  with assms show "createCombinedQuery tn now conditions' = createCombinedQuery tn now conditions"
    using combined_ignores_unknown by blast
next
  assume "truthy (js_get conditions ''minAge'')
            \<longrightarrow> (\<exists>t. minTimestamp tn now (js_get conditions ''minAge'') = Inr t)"
  with assms show "\<exists>query. createCombinedQuery tn now conditions = Inr query"
    by (rule combined_total)
next
  fix query
  assume q: "createCombinedQuery tn now conditions = Inr query"
  then obtain entries where "query = JObj entries" and "plain_query entries"
    using combined_shape by blast
  then show "\<exists>entries. query = JObj entries \<and> distinct (map fst entries)
              \<and> (\<forall>e \<in> set entries. fst e \<in> set attributes
                    \<and> (\<exists>op v. snd e = JObj [(op, v)] \<and> op \<in> set operators))"
    unfolding plain_query_def plain_entry_def by blast
next
  fix query
  assume q: "createCombinedQuery tn now conditions = Inr query"
  note e = combined_entries [OF q]
  from e show "js_get query ''isVerified'' =
              (if js_get conditions ''isVerified'' \<noteq> JUndefined
               then JObj [(''$eq'', js_get conditions ''isVerified'')] else JUndefined)"
    by (rule conjunct1)
  from e show "js_get query ''accountState'' =
              (if truthy (js_get conditions ''accountState'')
               then JObj [(''$eq'', js_get conditions ''accountState'')] else JUndefined)"
    by blast
  from e show "js_get query ''authMethod'' =
              (if truthy (js_get conditions ''authMethod'')
               then JObj [(''$eq'', js_get conditions ''authMethod'')] else JUndefined)"
    by blast
  from e show "js_get query ''email'' =
              (if truthy (js_get conditions ''hasEmail'')
               then JObj [(''$exists'', JBool True)] else JUndefined)"
    by blast
  from e show "js_get query ''walletAddress'' =
              (if truthy (js_get conditions ''hasWallet'')
               then JObj [(''$exists'', JBool True)] else JUndefined)"
    by blast
  from e show "js_get query ''registrationDate'' =
              (if truthy (js_get conditions ''minAge'')
               then (case minTimestamp tn now (js_get conditions ''minAge'') of
                       Inr t \<Rightarrow> JObj [(''$lt'', t)] | Inl e \<Rightarrow> JUndefined)
               else JUndefined)"
    by blast
qed

theorem combined_query_is_conjunctive_witness:
  "\<not> nullish sample_conditions
   \<and> createCombinedQuery no_conversion 1700000000 sample_conditions
       = createCombinedQuery no_conversion 1700000000 known_conditions
   \<and> createCombinedQuery no_conversion 1700000000 sample_conditions
       = Inr (JObj [
           (''isVerified'', JObj [(''$eq'', JBool True)]),
           (''accountState'', JObj [(''$eq'', JStr ''active'')]),
           (''registrationDate'', JObj [(''$lt'', JNum 1697408000)])])
   \<and> js_get (JObj [
           (''isVerified'', JObj [(''$eq'', JBool True)]),
           (''accountState'', JObj [(''$eq'', JStr ''active'')]),
           (''registrationDate'', JObj [(''$lt'', JNum 1697408000)])]) ''$or'' = JUndefined"
proof -
  have nn: "\<not> nullish sample_conditions" by (simp add: sample_conditions_def)
  have same: "\<not> nullish known_conditions
      \<and> (\<forall>k \<in> set recognised. js_get known_conditions k = js_get sample_conditions k)"
    by (simp add: sample_conditions_def known_conditions_def recognised_def)
  have val: "createCombinedQuery no_conversion 1700000000 known_conditions
       = Inr (JObj [
           (''isVerified'', JObj [(''$eq'', JBool True)]),
           (''accountState'', JObj [(''$eq'', JStr ''active'')]),
           (''registrationDate'', JObj [(''$lt'', JNum 1697408000)])])"
    by (simp add: createCombinedQuery_def known_conditions_def assign_if_def minTimestamp_def
          ToNumber_def bind_def Let_def)
  from combined_query_is_conjunctive [OF nn, of no_conversion 1700000000] same
  have "createCombinedQuery no_conversion 1700000000 known_conditions
       = createCombinedQuery no_conversion 1700000000 sample_conditions"
    by blast
  with nn val show ?thesis by simp
qed

subsection \<open>The state label of zkpData\<close>

text \<open>
  C10, as amended.  \<open>extractZkpDataFromCredential\<close> is total and copies the DID; its
  \<open>state\<close> is decided by the \<open>proof\<close> field alone: \<open>verified\<close> when it is a non-empty
  array whose first element is not null, \<open>error\<close> when that first element is null (the
  read of its type throws and is caught), and \<open>no-proof\<close> in every other case.  No
  verification outcome enters.
\<close>

theorem zkpData_state_by_first_proof:
  "js_get (extractZkpDataFromCredential credential did) ''identifier'' = did
   \<and> js_get (extractZkpDataFromCredential credential did) ''state'' =
       (case js_get credential ''proof'' of
          JArr (p # ps) \<Rightarrow> if nullish p then JStr ''error'' else JStr ''verified''
        | _ \<Rightarrow> JStr ''no-proof'')"
proof (cases "js_get credential ''proof''")
  case (JArr xs)
  then have "truthy credential" by (cases credential) auto
  with JArr show ?thesis
    by (cases xs) (simp_all add: extractZkpDataFromCredential_def Let_def)
qed (simp_all add: extractZkpDataFromCredential_def)

theorem zkpData_state_by_first_proof_witness:
  "js_get (extractZkpDataFromCredential sample_credential (JStr ''did:polygonid:polygon:amoy:ana'')) ''state''
     = JStr ''verified''
   \<and> js_get (extractZkpDataFromCredential (JObj [(''id'', JStr ''urn:uuid:c1'')]) (JStr ''did:polygonid:polygon:amoy:ana'')) ''state''
     = JStr ''no-proof''"
  using zkpData_state_by_first_proof [of sample_credential "JStr ''did:polygonid:polygon:amoy:ana''"]
    zkpData_state_by_first_proof [of "JObj [(''id'', JStr ''urn:uuid:c1'')]" "JStr ''did:polygonid:polygon:amoy:ana''"]
  by (simp add: sample_credential_def sample_proof_def)

text \<open>
  C10 as stated fails: a \<open>proof\<close> that is the non-empty array \<open>[null]\<close> gives the state
  \<open>error\<close>, not \<open>verified\<close>.
\<close>

theorem zkpData_null_proof_counterexample:
  "isArray (js_get (JObj [(''id'', JStr ''urn:uuid:c1''), (''proof'', JArr [JNull])]) ''proof'')
   \<and> js_length (js_get (JObj [(''id'', JStr ''urn:uuid:c1''), (''proof'', JArr [JNull])]) ''proof'') = JNum 1
   \<and> js_get (extractZkpDataFromCredential
               (JObj [(''id'', JStr ''urn:uuid:c1''), (''proof'', JArr [JNull])])
               (JStr ''did:polygonid:polygon:amoy:ana'')) ''state'' = JStr ''error''"
  by (simp add: extractZkpDataFromCredential_def)

end
